theory Spec2Isabelle
  imports Main "HOL-Library.AList" "HOL-Library.Word"
begin

section \<open>Genesis sync storage: the environment\<close>

text \<open>
  Wall-clock instants and durations are integers counting nanoseconds, as Go's
  \<^verbatim>\<open>time.Time\<close> and \<^verbatim>\<open>time.Duration\<close> do; \<^verbatim>\<open>now.Sub(t)\<close> is the difference.
  The configuration holds numbers of seconds, which the source multiplies by
  \<^verbatim>\<open>time.Second\<close>.
\<close>

type_synonym time = int
type_synonym duration = int

definition Second :: duration where
  "Second = 1000000000"

record GenesisConfig =
  AgingTime :: int
  VinterfaceAgingTime :: int
  DataPersistenceInterval :: int

text \<open>The ten resource families, named as the slots of \<^verbatim>\<open>GenesisSyncDataOperation\<close>.\<close>

datatype family =
  VIPs | VMs | VPCs | Hosts | Lldps | Ports | Networks | IPlastseens | Vinterfaces | Processes

datatype error =
  SessionError int
| StatementError
| RecordNotFound
| NotUnique string
| RequestError

datatype log_level = LError | LWarning | LInfo | LDebug

text \<open>A log line: level, message text, and the organization prefix when one is passed.\<close>

datatype log_entry = Log log_level string "int option"

subsection \<open>The relational store\<close>

text \<open>
  Only the columns the source reads or writes are kept. \<^verbatim>\<open>common.KUBERNETES\<close> and
  \<^verbatim>\<open>common.CONTROLLER_STATE_EXCEPTION\<close> are constants declared in another
  package; the columns they are compared with are modelled as datatypes with
  that constant as one constructor.
\<close>

datatype domain_type = KUBERNETES | OTHER_DOMAIN_TYPE nat
datatype controller_state = CONTROLLER_STATE_EXCEPTION | OTHER_CONTROLLER_STATE nat

record VTap =
  VTap_ID :: int

record GenesisStorage =
  VtapID :: nat
  NodeIP :: string

record SubDomain =
  SubDomain_Lcuuid :: string
  SubDomain_Domain :: string
  SubDomain_ClusterID :: string

record Domain =
  Domain_Lcuuid :: string
  Domain_ClusterID :: string
  Domain_Type :: domain_type
  Domain_ControllerIP :: string

record Controller =
  Controller_IP :: string
  Controller_PodIP :: string
  Controller_State :: controller_state

text \<open>
  Modelled from the spec: the record types of the ten families are declared in another
  package. A resource record of any family holds the natural key, the owning
  organization, the reporting agent, the last-seen instant and the family-specific
  remainder.
\<close>

record resource =
  res_key :: string
  res_org :: int
  res_vtap :: nat
  last_seen :: time
  res_body :: string

text \<open>The statements the source issues; a database session may fail any of them.\<close>

datatype stmt =
  FindVTaps | FindStorages | DeleteStorages | CreateStorage
| FindSubDomains | FirstDomain | FirstController
| SaveFamily family | LoadFamily family

text \<open>
  One organization's database. Each table lists its rows in primary-key order, the
  order in which \<^verbatim>\<open>First\<close> looks for a match. \<open>faults\<close> lists the statements
  that fail on this session (a transient store error).
\<close>

record db =
  vtap :: "VTap list"
  genesis_storage :: "GenesisStorage list"
  sub_domain :: "SubDomain list"
  domain :: "Domain list"
  controller :: "Controller list"
  genesis_rows :: "family \<Rightarrow> resource list"
  faults :: "stmt list"

text \<open>An outgoing HTTP GET: URL, timeout in seconds, query strings.\<close>

record request =
  req_url :: string
  req_timeout :: nat
  req_query :: "(string \<times> string) list"

text \<open>
  Everything outside the two engines: the per-organization databases
  (\<^verbatim>\<open>mysql.GetDB\<close> fails for an organization without an entry), the
  \<^verbatim>\<open>NODE_IP\<close> environment variable, whether the peer controller answers a
  request with an error, the requests issued so far and the log.
\<close>

record world =
  dbs :: "(int \<times> db) list"
  NODE_IP :: string
  http_failing :: bool
  requests :: "request list"
  logs :: "log_entry list"

definition GetDB :: "world \<Rightarrow> int \<Rightarrow> error + db" where
  "GetDB w orgID = (case map_of (dbs w) orgID of None \<Rightarrow> Inl (SessionError orgID) | Some d \<Rightarrow> Inr d)"

definition PutDB :: "int \<Rightarrow> db \<Rightarrow> world \<Rightarrow> world" where
  "PutDB orgID d w = w\<lparr>dbs := AList.update orgID d (dbs w)\<rparr>"

definition log_msg :: "log_level \<Rightarrow> string \<Rightarrow> int option \<Rightarrow> world \<Rightarrow> world" where
  "log_msg lvl msg org w = w\<lparr>logs := logs w @ [Log lvl msg org]\<rparr>"

definition failing :: "db \<Rightarrow> stmt \<Rightarrow> bool" where
  "failing d q = (q \<in> set (faults d))"

text \<open>\<^verbatim>\<open>db.Where(cond).Find(&rows)\<close>: all matching rows, or the statement's error.\<close>

definition Find :: "db \<Rightarrow> stmt \<Rightarrow> ('r \<Rightarrow> bool) \<Rightarrow> 'r list \<Rightarrow> error + 'r list" where
  "Find d q cond tbl = (if failing d q then Inl StatementError else Inr (filter cond tbl))"

text \<open>\<^verbatim>\<open>db.Where(cond).First(&row)\<close>: the first match, an error when there is none.\<close>

definition First :: "db \<Rightarrow> stmt \<Rightarrow> ('r \<Rightarrow> bool) \<Rightarrow> 'r list \<Rightarrow> error + 'r" where
  "First d q cond tbl =
     (if failing d q then Inl StatementError
      else case find cond tbl of None \<Rightarrow> Inl RecordNotFound | Some r \<Rightarrow> Inr r)"

subsection \<open>Strings of the standard library\<close>

definition digit_char :: "nat \<Rightarrow> char" where
  "digit_char d =
     (if d = 0 then CHR ''0'' else if d = 1 then CHR ''1'' else if d = 2 then CHR ''2''
      else if d = 3 then CHR ''3'' else if d = 4 then CHR ''4'' else if d = 5 then CHR ''5''
      else if d = 6 then CHR ''6'' else if d = 7 then CHR ''7'' else if d = 8 then CHR ''8''
      else CHR ''9'')"

fun digits :: "nat \<Rightarrow> string" where
  "digits n = (if n < 10 then [digit_char n] else digits (n div 10) @ [digit_char (n mod 10)])"

declare digits.simps [simp del]

text \<open>\<^verbatim>\<open>strconv.Itoa\<close>: the decimal rendering of a signed integer.\<close>

definition Itoa :: "int \<Rightarrow> string" where
  "Itoa i = (if i < 0 then CHR ''-'' # digits (nat (- i)) else digits (nat i))"

text \<open>\<^verbatim>\<open>net.JoinHostPort\<close>: a host containing a colon is put in brackets.\<close>

definition JoinHostPort :: "string \<Rightarrow> string \<Rightarrow> string" where
  "JoinHostPort host port =
     (if CHR '':'' \<in> set host then ''['' @ host @ '']:'' @ port else host @ '':'' @ port)"

section \<open>KubernetesStorage\<close>

text \<open>
  A cluster report. The type is declared in another file of the package; the source
  reads \<^verbatim>\<open>ClusterID\<close>, \<^verbatim>\<open>Version\<close> (compared with the \<^verbatim>\<open>uint64\<close>
  argument of \<^verbatim>\<open>triggerCloudRrefresh\<close>), \<^verbatim>\<open>Epoch\<close> and \<^verbatim>\<open>ErrorMSG\<close>.
\<close>

record KubernetesInfo =
  ORGID :: int
  ClusterID :: string
  Version :: "64 word"
  Epoch :: time
  ErrorMSG :: string
  Entries :: "string list"

text \<open>
  The engine. \<open>kubernetesData\<close> is the two-level Go map, kept as association lists
  (looked up with \<open>map_of\<close>, written with \<open>AList.update\<close>); the list order stands for
  the order in which a \<^verbatim>\<open>range\<close> loop happens to visit the map. \<open>kchannel\<close> is
  the sequence of messages sent on the fan-out channel so far (a consumer is assumed to
  drain it, so that no send blocks for ever). \<open>kCtx_cancelled\<close> is the state of the
  cancellation scope \<^verbatim>\<open>kCtx\<close>.
\<close>

record KubernetesStorage =
  listenPort :: int
  listenNodePort :: int
  kcfg :: GenesisConfig
  kCtx_cancelled :: bool
  kchannel :: "KubernetesInfo list"
  kubernetesData :: "(int \<times> (string \<times> KubernetesInfo) list) list"

definition NewKubernetesStorage :: "int \<Rightarrow> int \<Rightarrow> GenesisConfig \<Rightarrow> KubernetesInfo list \<Rightarrow> KubernetesStorage" where
  "NewKubernetesStorage port nPort c kChan =
     \<lparr>listenPort = port, listenNodePort = nPort, kcfg = c, kCtx_cancelled = False,
      kchannel = kChan, kubernetesData = []\<rparr>"

definition Clear :: "KubernetesStorage \<Rightarrow> KubernetesStorage" where
  "Clear k = k\<lparr>kubernetesData := []\<rparr>"

text \<open>\<^verbatim>\<open>fetch\<close>: one send per record of every inner map of every organization.\<close>

definition kfetch :: "KubernetesStorage \<Rightarrow> KubernetesStorage" where
  "kfetch k = k\<lparr>kchannel := kchannel k @ concat (map (\<lambda>(org, k8sDatas). map snd k8sDatas) (kubernetesData k))\<rparr>"

text \<open>\<^verbatim>\<open>gcommon.RequestGet\<close>: the request goes out; the peer's answer is the world's.\<close>

definition RequestGet :: "string \<Rightarrow> nat \<Rightarrow> (string \<times> string) list \<Rightarrow> world \<Rightarrow> error option \<times> world" where
  "RequestGet url timeout queryStrings w =
     (if http_failing w then Some RequestError else None,
      w\<lparr>requests := requests w @ [\<lparr>req_url = url, req_timeout = timeout, req_query = queryStrings\<rparr>]\<rparr>)"

text \<open>
  The \<^verbatim>\<open>switch len(subDomains)\<close> of \<^verbatim>\<open>triggerCloudRrefresh\<close>: it yields
  \<open>(controllerIP, domainLcuuid, subDomainLcuuid)\<close> or the error returned.
\<close>

definition resolve_domain :: "db \<Rightarrow> string \<Rightarrow> SubDomain list \<Rightarrow> error + (string \<times> string \<times> string)" where
  "resolve_domain d clusterID subDomains =
     (case subDomains of
        [] \<Rightarrow>
          (case First d FirstDomain (\<lambda>r. Domain_ClusterID r = clusterID \<and> Domain_Type r = KUBERNETES) (domain d) of
             Inl err \<Rightarrow> Inl err
           | Inr dm \<Rightarrow> Inr (Domain_ControllerIP dm, Domain_Lcuuid dm, Domain_Lcuuid dm))
      | [sd] \<Rightarrow>
          (case First d FirstDomain (\<lambda>r. Domain_Lcuuid r = SubDomain_Domain sd \<and> Domain_Type r = KUBERNETES) (domain d) of
             Inl err \<Rightarrow> Inl err
           | Inr dm \<Rightarrow> Inr (Domain_ControllerIP dm, Domain_Lcuuid dm, SubDomain_Lcuuid sd))
      | _ \<Rightarrow> Inl (NotUnique clusterID))"

definition triggerCloudRrefresh ::
  "KubernetesStorage \<Rightarrow> int \<Rightarrow> string \<Rightarrow> 64 word \<Rightarrow> world \<Rightarrow> error option \<times> world" where
  "triggerCloudRrefresh k orgID clusterID version w =
     (case GetDB w orgID of
        Inl err \<Rightarrow> (Some err, log_msg LError ''get mysql session failed'' (Some orgID) w)
      | Inr d \<Rightarrow>
        (case Find d FindSubDomains (\<lambda>r. SubDomain_ClusterID r = clusterID) (sub_domain d) of
           Inl err \<Rightarrow> (Some err, w)
         | Inr subDomains \<Rightarrow>
           (case resolve_domain d clusterID subDomains of
              Inl err \<Rightarrow> (Some err, w)
            | Inr (controllerIP, domainLcuuid, subDomainLcuuid) \<Rightarrow>
              (case First d FirstController
                      (\<lambda>r. Controller_IP r = controllerIP \<and> Controller_State r \<noteq> CONTROLLER_STATE_EXCEPTION)
                      (controller d) of
                 Inl err \<Rightarrow> (Some err, w)
               | Inr ctrl \<Rightarrow>
                 (let requestIP = (if Controller_PodIP ctrl \<noteq> [] then Controller_PodIP ctrl else controllerIP);
                      requestPort = (if Controller_PodIP ctrl \<noteq> [] then listenPort k else listenNodePort k);
                      requestUrl = ''http://'' @ JoinHostPort requestIP (Itoa requestPort) @ ''/v1/kubernetes-refresh/'';
                      queryStrings = [(''domain_lcuuid'', domainLcuuid),
                                      (''sub_domain_lcuuid'', subDomainLcuuid),
                                      (''version'', Itoa (sint version))]
                  in RequestGet requestUrl 30
                       queryStrings
                       (log_msg LDebug ''trigger cloud (%s) kubernetes (%s) refresh version (%d)'' (Some orgID) w))))))"

text \<open>
  The part of \<^verbatim>\<open>Add\<close> under the mutex: the new map and \<^verbatim>\<open>unTriggerFlag\<close>.
  The inner map is a reference in Go, so a write to it is a write to the outer map's
  entry.
\<close>

definition Add_store ::
  "int \<Rightarrow> KubernetesInfo \<Rightarrow> (int \<times> (string \<times> KubernetesInfo) list) list
     \<Rightarrow> bool \<times> (int \<times> (string \<times> KubernetesInfo) list) list" where
  "Add_store orgID newInfo kd =
     (case map_of kd orgID of
        Some inner \<Rightarrow>
          (case map_of inner (ClusterID newInfo) of
             Some oldInfo \<Rightarrow>
               if Version oldInfo = Version newInfo
               then (True, AList.update orgID
                             (AList.update (ClusterID newInfo)
                                (oldInfo\<lparr>Epoch := Epoch newInfo, ErrorMSG := ErrorMSG newInfo\<rparr>) inner) kd)
               else (False, AList.update orgID (AList.update (ClusterID newInfo) newInfo inner) kd)
           | None \<Rightarrow> (False, AList.update orgID (AList.update (ClusterID newInfo) newInfo inner) kd))
      | None \<Rightarrow> (False, AList.update orgID [(ClusterID newInfo, newInfo)] kd))"

definition Add :: "int \<Rightarrow> KubernetesInfo \<Rightarrow> KubernetesStorage \<Rightarrow> world \<Rightarrow> KubernetesStorage \<times> world" where
  "Add orgID newInfo k w =
     (let (unTriggerFlag, kd) = Add_store orgID newInfo (kubernetesData k);
          k' = kfetch (k\<lparr>kubernetesData := kd\<rparr>)
      in if \<not> unTriggerFlag
         then (case triggerCloudRrefresh k' orgID (ClusterID newInfo) (Version newInfo) w of
                 (Some err, w') \<Rightarrow>
                   (k', log_msg LWarning ''trigger cloud kubernetes refresh failed: (%s)'' (Some orgID) w')
               | (None, w') \<Rightarrow> (k', w'))
         else (k', w))"

text \<open>
  One pass of the body of \<^verbatim>\<open>KubernetesStorage.run\<close>, woken at instant \<open>now\<close>: every
  record whose epoch is older than the aging time is deleted from its inner map, then
  the store is sent out.
\<close>

definition krun_tick :: "time \<Rightarrow> KubernetesStorage \<Rightarrow> KubernetesStorage" where
  "krun_tick now k =
     kfetch (k\<lparr>kubernetesData :=
        map (\<lambda>(org, inner). (org, filter (\<lambda>(key, s). now - Epoch s \<le> AgingTime (kcfg k) * Second) inner))
            (kubernetesData k)\<rparr>)"

text \<open>
  The loop \<^verbatim>\<open>for { time.Sleep(...); ... }\<close> never returns. It is observed through
  the instants at which it wakes: after the wake-ups listed, the engine is in the state
  returned and the loop is asleep again.
\<close>

fun krun :: "time list \<Rightarrow> KubernetesStorage \<Rightarrow> KubernetesStorage" where
  "krun [] k = k"
| "krun (now # wakes) k = krun wakes (krun_tick now k)"

text \<open>\<^verbatim>\<open>Stop\<close> cancels the scope (\<^verbatim>\<open>kCancel\<close> is never nil after the constructor).\<close>

definition kStop :: "KubernetesStorage \<Rightarrow> KubernetesStorage" where
  "kStop k = k\<lparr>kCtx_cancelled := True\<rparr>"

text \<open>The number of stored \<open>(orgID, clusterID)\<close> entries.\<close>

definition entry_count :: "(int \<times> (string \<times> KubernetesInfo) list) list \<Rightarrow> nat" where
  "entry_count kd = sum_list (map (\<lambda>(org, inner). length inner) kd)"

text \<open>The Go maps have one entry per key: the association lists that stand for them.\<close>

definition kwf :: "(int \<times> (string \<times> KubernetesInfo) list) list \<Rightarrow> bool" where
  "kwf kd = (distinct (map fst kd) \<and> list_all (\<lambda>(org, inner). distinct (map fst inner)) kd)"

definition klookup ::
  "(int \<times> (string \<times> KubernetesInfo) list) list \<Rightarrow> int \<Rightarrow> string \<Rightarrow> KubernetesInfo option" where
  "klookup kd org cid = (case map_of kd org of None \<Rightarrow> None | Some inner \<Rightarrow> map_of inner cid)"

section \<open>SyncStorage\<close>

subsection \<open>The per-family data operation\<close>

text \<open>
  Modelled from the spec: the per-family data operation (its type and its methods
  \<^verbatim>\<open>Renew\<close>, \<^verbatim>\<open>Update\<close>, \<^verbatim>\<open>Age\<close>, \<^verbatim>\<open>Load\<close>, \<^verbatim>\<open>Save\<close>,
  \<^verbatim>\<open>Fetch\<close>) is declared in another file of the package; the engine only calls it. It
  holds the organization it persists to and a keyed mapping from natural key to record.
\<close>

record data_op =
  op_orgID :: int
  op_records :: "(string \<times> resource) list"

text \<open>Modelled from the spec: \<^verbatim>\<open>Fetch\<close> returns a copy of the current records.\<close>

definition op_Fetch :: "data_op \<Rightarrow> resource list" where
  "op_Fetch g = map snd (op_records g)"

text \<open>
  Modelled from the spec: \<^verbatim>\<open>Renew(records, now)\<close> sets \<open>last_seen = now\<close> on the
  stored record with the same natural key if present and ignores the record otherwise,
  in the order of the argument.
\<close>

definition renew_record :: "time \<Rightarrow> resource \<Rightarrow> (string \<times> resource) list \<Rightarrow> (string \<times> resource) list" where
  "renew_record now r m =
     (case map_of m (res_key r) of
        None \<Rightarrow> m
      | Some old \<Rightarrow> AList.update (res_key r) (old\<lparr>last_seen := now\<rparr>) m)"

definition op_Renew :: "resource list \<Rightarrow> time \<Rightarrow> data_op \<Rightarrow> data_op" where
  "op_Renew recs now g = g\<lparr>op_records := fold (renew_record now) recs (op_records g)\<rparr>"

text \<open>
  Modelled from the spec: \<^verbatim>\<open>Update(records, now)\<close> upserts each incoming record with
  \<open>last_seen = now\<close>, replacing a stored record with the same key in full.
\<close>

definition op_Update :: "resource list \<Rightarrow> time \<Rightarrow> data_op \<Rightarrow> data_op" where
  "op_Update recs now g =
     g\<lparr>op_records := fold (\<lambda>r. AList.update (res_key r) (r\<lparr>last_seen := now\<rparr>)) recs (op_records g)\<rparr>"

text \<open>
  Modelled from the spec: \<^verbatim>\<open>Age(now, ttl)\<close> removes every record with
  \<open>now - last_seen > ttl\<close> and returns true iff at least one record was removed.
\<close>

definition op_Age :: "time \<Rightarrow> duration \<Rightarrow> data_op \<Rightarrow> bool \<times> data_op" where
  "op_Age now ttl g =
     (let kept = filter (\<lambda>(key, r). \<not> now - last_seen r > ttl) (op_records g)
      in (length kept < length (op_records g), g\<lparr>op_records := kept\<rparr>))"

text \<open>
  Modelled from the spec: \<^verbatim>\<open>Load(now, ttl)\<close> reads the family's rows of the
  operation's organization, drops those with \<open>now - last_seen > ttl\<close> and installs the
  rest; \<^verbatim>\<open>Save\<close> replaces the family's rows of that organization by the current
  records, and leaves the store as it was when the transaction fails.
\<close>

definition op_Load :: "family \<Rightarrow> time \<Rightarrow> duration \<Rightarrow> world \<Rightarrow> data_op \<Rightarrow> data_op" where
  "op_Load f now ttl w g =
     (case GetDB w (op_orgID g) of
        Inl err \<Rightarrow> g
      | Inr d \<Rightarrow>
        (case Find d (LoadFamily f) (\<lambda>r. \<not> now - last_seen r > ttl) (genesis_rows d f) of
           Inl err \<Rightarrow> g
         | Inr rows \<Rightarrow> g\<lparr>op_records := fold (\<lambda>r. AList.update (res_key r) r) rows []\<rparr>))"

definition op_Save :: "family \<Rightarrow> data_op \<Rightarrow> world \<Rightarrow> world" where
  "op_Save f g w =
     (case GetDB w (op_orgID g) of
        Inl err \<Rightarrow> w
      | Inr d \<Rightarrow>
        if failing d (SaveFamily f) then w
        else PutDB (op_orgID g) (d\<lparr>genesis_rows := (genesis_rows d)(f := op_Fetch g)\<rparr>) w)"

subsection \<open>The engine\<close>

text \<open>
  The argument of \<^verbatim>\<open>Renew\<close> and \<^verbatim>\<open>Update\<close>: the source tests each slot against
  \<^verbatim>\<open>nil\<close>, so a slot is optional. The snapshot sent on the channel holds the
  records of each of the ten families.
\<close>

type_synonym GenesisSyncDataOperation = "family \<Rightarrow> data_op option"
type_synonym GenesisSyncData = "family \<Rightarrow> resource list"

record VIFRPCMessage =
  orgID :: int
  vtapID :: nat

text \<open>
  The engine. \<open>genesisSyncInfo\<close> is the aggregate as \<^verbatim>\<open>loadFromDatabase\<close> installs
  it at the start of \<^verbatim>\<open>run\<close>: every slot holds an operation, and the source calls
  the slots' methods without a \<^verbatim>\<open>nil\<close> test. \<open>channel\<close> is the sequence of
  snapshots sent so far; \<open>vCtx_cancelled\<close> is the state of the cancellation scope.
  The mutex is not modelled: each entry point and each loop pass runs to its end.
\<close>

record SyncStorage =
  cfg :: GenesisConfig
  vCtx_cancelled :: bool
  channel :: "GenesisSyncData list"
  dirty :: bool
  genesisSyncInfo :: "family \<Rightarrow> data_op"

text \<open>
  \<^verbatim>\<open>if data.F != nil { s.genesisSyncInfo.F.Renew(data.F.Fetch(), now) }\<close>
\<close>

definition renew_slot :: "family \<Rightarrow> GenesisSyncDataOperation \<Rightarrow> time \<Rightarrow> (family \<Rightarrow> data_op) \<Rightarrow> (family \<Rightarrow> data_op)" where
  "renew_slot f data now g =
     (case data f of None \<Rightarrow> g | Some d \<Rightarrow> g(f := op_Renew (op_Fetch d) now (g f)))"

definition Renew :: "time \<Rightarrow> GenesisSyncDataOperation \<Rightarrow> SyncStorage \<Rightarrow> world \<Rightarrow> SyncStorage \<times> world" where
  "Renew now data s w =
     (let g = genesisSyncInfo s;
          g = renew_slot VIPs data now g;
          g = renew_slot VMs data now g;
          g = renew_slot VPCs data now g;
          g = renew_slot Hosts data now g;
          g = renew_slot Lldps data now g;
          g = renew_slot Ports data now g;
          g = renew_slot Networks data now g;
          g = renew_slot IPlastseens data now g;
          g = renew_slot Vinterfaces data now g;
          g = renew_slot Processes data now g
      in (s\<lparr>genesisSyncInfo := g\<rparr>, w))"

text \<open>
  \<^verbatim>\<open>if data.F != nil { updateFlag = true; s.genesisSyncInfo.F.Update(data.F.Fetch(), now) }\<close>
\<close>

definition update_slot ::
  "family \<Rightarrow> GenesisSyncDataOperation \<Rightarrow> time \<Rightarrow> bool \<times> (family \<Rightarrow> data_op) \<Rightarrow> bool \<times> (family \<Rightarrow> data_op)" where
  "update_slot f data now p =
     (case data f of
        None \<Rightarrow> p
      | Some d \<Rightarrow> (True, (snd p)(f := op_Update (op_Fetch d) now (snd p f))))"

text \<open>\<^verbatim>\<open>fetch\<close>: one snapshot of the ten families is sent on the channel.\<close>

definition fetch :: "SyncStorage \<Rightarrow> SyncStorage" where
  "fetch s =
     s\<lparr>channel := channel s @
        [\<lambda>f. case f of
                VIPs \<Rightarrow> op_Fetch (genesisSyncInfo s VIPs)
              | VMs \<Rightarrow> op_Fetch (genesisSyncInfo s VMs)
              | VPCs \<Rightarrow> op_Fetch (genesisSyncInfo s VPCs)
              | Hosts \<Rightarrow> op_Fetch (genesisSyncInfo s Hosts)
              | Ports \<Rightarrow> op_Fetch (genesisSyncInfo s Ports)
              | Lldps \<Rightarrow> op_Fetch (genesisSyncInfo s Lldps)
              | IPlastseens \<Rightarrow> op_Fetch (genesisSyncInfo s IPlastseens)
              | Networks \<Rightarrow> op_Fetch (genesisSyncInfo s Networks)
              | Vinterfaces \<Rightarrow> op_Fetch (genesisSyncInfo s Vinterfaces)
              | Processes \<Rightarrow> op_Fetch (genesisSyncInfo s Processes)]\<rparr>"

text \<open>
  \<^verbatim>\<open>db.Clauses(clause.OnConflict{Columns: vtap_id, DoUpdates: node_ip}).Create(row)\<close>:
  a row with the same \<open>vtap_id\<close> gets the new \<open>node_ip\<close>, otherwise the row is
  inserted. The source does not look at the statement's error.
\<close>

definition Create_OnConflict :: "GenesisStorage \<Rightarrow> string \<Rightarrow> db \<Rightarrow> db" where
  "Create_OnConflict row nodeIP d =
     (if failing d CreateStorage then d
      else if VtapID row \<in> set (map VtapID (genesis_storage d))
      then d\<lparr>genesis_storage :=
              map (\<lambda>r. if VtapID r = VtapID row then r\<lparr>NodeIP := nodeIP\<rparr> else r) (genesis_storage d)\<rparr>
      else d\<lparr>genesis_storage := genesis_storage d @ [row]\<rparr>)"

definition Update ::
  "time \<Rightarrow> GenesisSyncDataOperation \<Rightarrow> VIFRPCMessage \<Rightarrow> SyncStorage \<Rightarrow> world \<Rightarrow> SyncStorage \<times> world" where
  "Update now data info s w =
     (let p = (False, genesisSyncInfo s);
          p = update_slot VIPs data now p;
          p = update_slot VMs data now p;
          p = update_slot VPCs data now p;
          p = update_slot Hosts data now p;
          p = update_slot Lldps data now p;
          p = update_slot Ports data now p;
          p = update_slot Networks data now p;
          p = update_slot IPlastseens data now p;
          p = update_slot Vinterfaces data now p;
          p = update_slot Processes data now p;
          updateFlag = fst p;
          s1 = s\<lparr>genesisSyncInfo := snd p\<rparr>
      in if updateFlag \<and> vtapID info \<noteq> 0
         then (let s2 = fetch s1
               in case GetDB w (orgID info) of
                    Inl err \<Rightarrow> (s2, log_msg LError ''get mysql session failed'' (Some (orgID info)) w)
                  | Inr d \<Rightarrow>
                      (let nodeIP = NODE_IP w
                       in (s2\<lparr>dirty := True\<rparr>,
                           PutDB (orgID info)
                             (Create_OnConflict \<lparr>VtapID = vtapID info, NodeIP = nodeIP\<rparr> nodeIP d) w)))
         else (s1\<lparr>dirty := True\<rparr>, w))"

text \<open>The aggregate after the ten conditional updates of \<^verbatim>\<open>Update\<close>.\<close>

abbreviation updated :: "GenesisSyncDataOperation \<Rightarrow> time \<Rightarrow> (family \<Rightarrow> data_op) \<Rightarrow> (family \<Rightarrow> data_op)" where
  "updated data now g \<equiv>
     (\<lambda>f. case data f of None \<Rightarrow> g f | Some d \<Rightarrow> op_Update (op_Fetch d) now (g f))"

text \<open>
  \<^verbatim>\<open>mcommon.DEFAULT_ORG_ID\<close> is declared in another package; no property below
  depends on its value.
\<close>

definition DEFAULT_ORG_ID :: int where
  "DEFAULT_ORG_ID = 1"

definition loadFromDatabase :: "duration \<Rightarrow> time \<Rightarrow> SyncStorage \<Rightarrow> world \<Rightarrow> SyncStorage \<times> world" where
  "loadFromDatabase ageTime now s w =
     (let new = \<lparr>op_orgID = DEFAULT_ORG_ID, op_records = []\<rparr>
      in (fetch (s\<lparr>genesisSyncInfo := (\<lambda>f. op_Load f now ageTime w new)\<rparr>), w))"

definition storeToDatabase :: "SyncStorage \<Rightarrow> world \<Rightarrow> world" where
  "storeToDatabase s w =
     (let w = op_Save VIPs (genesisSyncInfo s VIPs) w;
          w = op_Save VMs (genesisSyncInfo s VMs) w;
          w = op_Save VPCs (genesisSyncInfo s VPCs) w;
          w = op_Save Hosts (genesisSyncInfo s Hosts) w;
          w = op_Save Ports (genesisSyncInfo s Ports) w;
          w = op_Save Lldps (genesisSyncInfo s Lldps) w;
          w = op_Save IPlastseens (genesisSyncInfo s IPlastseens) w;
          w = op_Save Networks (genesisSyncInfo s Networks) w;
          w = op_Save Vinterfaces (genesisSyncInfo s Vinterfaces) w;
          w = op_Save Processes (genesisSyncInfo s Processes) w
      in w)"

subsection \<open>The ownership reconciler\<close>

text \<open>
  The body of the loop over the organizations, for one organization. The two
  \<^verbatim>\<open>Find\<close> statements leave their slice empty when they fail, and the source does
  not look at their error. \<^verbatim>\<open>db.Delete(&invalidStorages)\<close> deletes the rows with
  the primary keys of the slice.
\<close>

definition refresh_org :: "string \<Rightarrow> int \<Rightarrow> world \<Rightarrow> world" where
  "refresh_org nodeIP org w =
     (case GetDB w org of
        Inl err \<Rightarrow> log_msg LError ''get mysql session failed'' (Some org) w
      | Inr d \<Rightarrow>
        (let vTaps = (case Find d FindVTaps (\<lambda>v. True) (vtap d) of Inl err \<Rightarrow> [] | Inr rows \<Rightarrow> rows);
             storages = (case Find d FindStorages (\<lambda>r. NodeIP r = nodeIP) (genesis_storage d) of
                           Inl err \<Rightarrow> [] | Inr rows \<Rightarrow> rows);
             vTapIDs = map VTap_ID vTaps;
             invalidStorages = filter (\<lambda>r. int (VtapID r) \<notin> set vTapIDs) storages
         in if length invalidStorages > 0
            then (if failing d DeleteStorages
                  then log_msg LError ''node (%s) clean genesis storage invalid data failed: %s'' (Some org) w
                  else log_msg LInfo ''node (%s) clean genesis storage invalid data success'' (Some org)
                         (PutDB org
                            (d\<lparr>genesis_storage :=
                                 filter (\<lambda>r. VtapID r \<notin> set (map VtapID invalidStorages)) (genesis_storage d)\<rparr>)
                            w))
            else w))"

text \<open>
  Whether a loop is still running (asleep until its next tick) or its function has
  returned.
\<close>

datatype loop_status = Looping | Returned

text \<open>
  One pass of the body of \<^verbatim>\<open>for range ticker.C\<close> in \<^verbatim>\<open>refreshDatabase\<close>.
  \<open>orgs\<close> is what \<^verbatim>\<open>mysql.GetORGIDs()\<close> answers at this tick.
\<close>

definition refreshDatabase_tick ::
  "error + int list \<Rightarrow> SyncStorage \<Rightarrow> world \<Rightarrow> loop_status \<times> SyncStorage \<times> world" where
  "refreshDatabase_tick orgs s w =
     (case orgs of
        Inl err \<Rightarrow> (Returned, s, log_msg LError ''get org ids failed'' None w)
      | Inr orgIDs \<Rightarrow> (Looping, s\<lparr>dirty := True\<rparr>, fold (refresh_org (NODE_IP w)) orgIDs w))"

text \<open>
  The ticker never closes its channel, so the loop ends only by \<^verbatim>\<open>return\<close>. It is
  observed through the ticks it receives, each with the answer of
  \<^verbatim>\<open>mysql.GetORGIDs()\<close> at that tick.
\<close>

fun refreshDatabase ::
  "(error + int list) list \<Rightarrow> SyncStorage \<Rightarrow> world \<Rightarrow> loop_status \<times> SyncStorage \<times> world" where
  "refreshDatabase [] s w = (Looping, s, w)"
| "refreshDatabase (orgs # ticks) s w =
     (case refreshDatabase_tick orgs s w of
        (Returned, s', w') \<Rightarrow> (Returned, s', w')
      | (Looping, s', w') \<Rightarrow> refreshDatabase ticks s' w')"

subsection \<open>The persistence loop\<close>

text \<open>
  \<^verbatim>\<open>hasChange = hasChange || s.genesisSyncInfo.F.Age(now, ttl)\<close>: Go evaluates the
  right operand of \<^verbatim>\<open>||\<close> only when the left one is false.
\<close>

definition age_slot ::
  "family \<Rightarrow> time \<Rightarrow> duration \<Rightarrow> bool \<times> (family \<Rightarrow> data_op) \<Rightarrow> bool \<times> (family \<Rightarrow> data_op)" where
  "age_slot f now ttl p =
     (if fst p then p
      else (fst (op_Age now ttl (snd p f)), (snd p)(f := snd (op_Age now ttl (snd p f)))))"

text \<open>One pass of the body of the loop of \<^verbatim>\<open>run\<close>, woken at instant \<open>now\<close>.\<close>

definition run_tick :: "time \<Rightarrow> SyncStorage \<Rightarrow> world \<Rightarrow> SyncStorage \<times> world" where
  "run_tick now s w =
     (let ageTime = AgingTime (cfg s) * Second;
          p = (False, genesisSyncInfo s);
          p = age_slot VIPs now ageTime p;
          p = age_slot VMs now ageTime p;
          p = age_slot VPCs now ageTime p;
          p = age_slot Lldps now ageTime p;
          p = age_slot Ports now ageTime p;
          p = age_slot Networks now ageTime p;
          p = age_slot IPlastseens now ageTime p;
          p = age_slot Processes now ageTime p;
          p = age_slot Vinterfaces now (VinterfaceAgingTime (cfg s) * Second) p;
          hasChange = (fst p \<or> dirty s);
          s1 = s\<lparr>genesisSyncInfo := snd p, dirty := False\<rparr>
      in if hasChange then (fetch s1, storeToDatabase s1 w) else (s1, w))"

fun run_loop :: "time list \<Rightarrow> SyncStorage \<Rightarrow> world \<Rightarrow> SyncStorage \<times> world" where
  "run_loop [] s w = (s, w)"
| "run_loop (now # wakes) s w = (case run_tick now s w of (s', w') \<Rightarrow> run_loop wakes s' w')"

text \<open>
  \<^verbatim>\<open>run\<close>: the load at instant \<open>start\<close>, then the loop, observed through the
  instants at which it wakes.
\<close>

definition run :: "time \<Rightarrow> time list \<Rightarrow> SyncStorage \<Rightarrow> world \<Rightarrow> SyncStorage \<times> world" where
  "run start wakes s w =
     (case loadFromDatabase (AgingTime (cfg s) * Second) start s w of
        (s', w') \<Rightarrow> run_loop wakes s' w')"

text \<open>\<^verbatim>\<open>Stop\<close> cancels the scope (\<^verbatim>\<open>vCancel\<close> is never nil after the constructor).\<close>

definition Stop :: "SyncStorage \<Rightarrow> SyncStorage" where
  "Stop s = s\<lparr>vCtx_cancelled := True\<rparr>"

section \<open>Sample configurations\<close>

text \<open>
  Concrete engines and stores on which the properties below are instantiated. Instants
  are given in seconds times \<open>Second\<close>.
\<close>

definition cfg0 :: GenesisConfig where
  "cfg0 = \<lparr>AgingTime = 60, VinterfaceAgingTime = 30, DataPersistenceInterval = 10\<rparr>"

definition db0 :: db where
  "db0 =
     \<lparr>vtap = [\<lparr>VTap_ID = 1\<rparr>, \<lparr>VTap_ID = 2\<rparr>],
      genesis_storage =
        [\<lparr>VtapID = 1, NodeIP = ''10.0.0.9''\<rparr>, \<lparr>VtapID = 2, NodeIP = ''10.0.0.9''\<rparr>,
         \<lparr>VtapID = 99, NodeIP = ''10.0.0.9''\<rparr>],
      sub_domain =
        [\<lparr>SubDomain_Lcuuid = ''sd1'', SubDomain_Domain = ''d2'', SubDomain_ClusterID = ''c2''\<rparr>,
         \<lparr>SubDomain_Lcuuid = ''sd3a'', SubDomain_Domain = ''d1'', SubDomain_ClusterID = ''c3''\<rparr>,
         \<lparr>SubDomain_Lcuuid = ''sd3b'', SubDomain_Domain = ''d1'', SubDomain_ClusterID = ''c3''\<rparr>],
      domain =
        [\<lparr>Domain_Lcuuid = ''d1'', Domain_ClusterID = ''c1'', Domain_Type = KUBERNETES,
          Domain_ControllerIP = ''10.0.0.1''\<rparr>,
         \<lparr>Domain_Lcuuid = ''d2'', Domain_ClusterID = ''c0'', Domain_Type = KUBERNETES,
          Domain_ControllerIP = ''10.0.0.2''\<rparr>],
      controller =
        [\<lparr>Controller_IP = ''10.0.0.1'', Controller_PodIP = [], Controller_State = OTHER_CONTROLLER_STATE 2\<rparr>,
         \<lparr>Controller_IP = ''10.0.0.2'', Controller_PodIP = ''172.16.0.2'',
          Controller_State = OTHER_CONTROLLER_STATE 2\<rparr>],
      genesis_rows = (\<lambda>f. []),
      faults = []\<rparr>"

definition world0 :: world where
  "world0 = \<lparr>dbs = [(1, db0)], NODE_IP = ''10.0.0.9'', http_failing = False, requests = [], logs = []\<rparr>"

definition info_v5 :: KubernetesInfo where
  "info_v5 = \<lparr>ORGID = 1, ClusterID = ''c1'', Version = 5, Epoch = 0, ErrorMSG = [], Entries = [''E'']\<rparr>"

definition info_v5_again :: KubernetesInfo where
  "info_v5_again =
     \<lparr>ORGID = 1, ClusterID = ''c1'', Version = 5, Epoch = 7 * Second, ErrorMSG = ''x'', Entries = [''E2'']\<rparr>"

definition info_c2 :: KubernetesInfo where
  "info_c2 =
     \<lparr>ORGID = 1, ClusterID = ''c2'', Version = 6, Epoch = 50 * Second, ErrorMSG = [], Entries = [''F'']\<rparr>"

definition kstore0 :: KubernetesStorage where
  "kstore0 =
     \<lparr>listenPort = 20417, listenNodePort = 30417, kcfg = cfg0, kCtx_cancelled = False,
      kchannel = [], kubernetesData = [(1, [(''c1'', info_v5)])]\<rparr>"

definition res_a :: resource where
  "res_a = \<lparr>res_key = ''a'', res_org = 1, res_vtap = 7, last_seen = 0, res_body = []\<rparr>"

definition res_b :: resource where
  "res_b = \<lparr>res_key = ''b'', res_org = 1, res_vtap = 7, last_seen = 0, res_body = []\<rparr>"

definition op_empty :: data_op where
  "op_empty = \<lparr>op_orgID = 1, op_records = []\<rparr>"

text \<open>An engine whose ten families are empty.\<close>

definition engine0 :: SyncStorage where
  "engine0 =
     \<lparr>cfg = cfg0, vCtx_cancelled = False, channel = [], dirty = False,
      genesisSyncInfo = (\<lambda>f. op_empty)\<rparr>"

text \<open>An engine holding one record last seen at instant 0 in each of VIPs, VMs and Hosts.\<close>

definition engine_stale :: SyncStorage where
  "engine_stale =
     \<lparr>cfg = cfg0, vCtx_cancelled = False, channel = [], dirty = False,
      genesisSyncInfo =
        (\<lambda>f. op_empty)
          (VIPs := \<lparr>op_orgID = 1, op_records = [(''a'', res_a)]\<rparr>,
           VMs := \<lparr>op_orgID = 1, op_records = [(''b'', res_b)]\<rparr>,
           Hosts := \<lparr>op_orgID = 1, op_records = [(''a'', res_a)]\<rparr>)\<rparr>"

definition data_none :: GenesisSyncDataOperation where
  "data_none = (\<lambda>f. None)"

definition data_vms :: GenesisSyncDataOperation where
  "data_vms = (\<lambda>f. None)(VMs := Some \<lparr>op_orgID = 1, op_records = [(''a'', res_a), (''b'', res_b)]\<rparr>)"

definition info_vtap7 :: VIFRPCMessage where
  "info_vtap7 = \<lparr>orgID = 1, vtapID = 7\<rparr>"

text \<open>A report for an organization whose database session cannot be obtained.\<close>

definition info_no_session :: VIFRPCMessage where
  "info_no_session = \<lparr>orgID = 5, vtapID = 7\<rparr>"

text \<open>
  The same organization on a session where the upsert into \<open>genesis_storage\<close>
  fails, and a report of agent 2, which already has an ownership row there.
\<close>

definition world_create_fails :: world where
  "world_create_fails =
     \<lparr>dbs = [(1, db0\<lparr>faults := [CreateStorage]\<rparr>)], NODE_IP = ''10.0.0.9'', http_failing = False,
      requests = [], logs = []\<rparr>"

definition world_other_node :: world where
  "world_other_node =
     \<lparr>dbs = [(1, db0)], NODE_IP = ''10.0.0.7'', http_failing = False, requests = [], logs = []\<rparr>"

definition info_vtap2 :: VIFRPCMessage where
  "info_vtap2 = \<lparr>orgID = 1, vtapID = 2\<rparr>"

section \<open>Properties of KubernetesStorage\<close>

subsection \<open>The store as a two-level map\<close>

lemma klookup_update:
  "klookup (AList.update org inner kd) org' cid =
     (if org' = org then map_of inner cid else klookup kd org' cid)"
  by (simp add: klookup_def update_conv')

lemma Add_store_same_version:
  assumes "klookup kd oid (ClusterID info) = Some old" and "Version old = Version info"
  shows "fst (Add_store oid info kd)"
    and "klookup (snd (Add_store oid info kd)) org cid =
           (if org = oid \<and> cid = ClusterID info
            then Some (old\<lparr>Epoch := Epoch info, ErrorMSG := ErrorMSG info\<rparr>)
            else klookup kd org cid)"
  using assms
  by (auto simp: Add_store_def klookup_def update_conv' split: option.splits)

lemma kwf_update:
  assumes "kwf kd" and "distinct (map fst inner)"
  shows "kwf (AList.update org inner kd)"
  using assms
proof (induction kd)
  case Nil
  then show ?case by (simp add: kwf_def)
next
  case (Cons p kd)
  obtain o' i' where p: "p = (o', i')" by (cases p)
  from Cons.prems have tl: "kwf kd" by (simp add: kwf_def)
  have keys: "fst ` set (AList.update org inner kd) = {org} \<union> fst ` set kd"
    by (rule dom_update)
  show ?case
  proof (cases "o' = org")
    case True
    with Cons.prems p show ?thesis by (simp add: kwf_def)
  next
    case False
    with Cons.prems p Cons.IH[OF tl Cons.prems(2)] keys show ?thesis
      by (auto simp: kwf_def)
  qed
qed

lemma kwf_inner:
  "kwf kd \<Longrightarrow> map_of kd org = Some inner \<Longrightarrow> distinct (map fst inner)"
  by (induction kd) (auto simp: kwf_def split: if_splits)

lemma kwf_Add_store: "kwf kd \<Longrightarrow> kwf (snd (Add_store oid info kd))"
  by (auto simp: Add_store_def split: option.splits
           intro!: kwf_update distinct_update dest: kwf_inner)

lemma kwf_aged:
  "kwf kd \<Longrightarrow> kwf (map (\<lambda>(org, inner). (org, filter P inner)) kd)"
proof (induction kd)
  case Nil
  then show ?case by (simp add: kwf_def)
next
  case (Cons p kd)
  obtain o' i' where p: "p = (o', i')" by (cases p)
  have fsts: "map fst (map (\<lambda>(org, inner). (org, filter P inner)) kd) = map fst kd" for kd :: "(int \<times> (string \<times> KubernetesInfo) list) list"
    by (induction kd) auto
  from Cons show ?case
    unfolding kwf_def p
    by (simp add: fsts distinct_map_filter case_prod_unfold list_all_iff)
qed

text \<open>
  For a well-formed store, \<open>entry_count\<close> is the number of keys \<open>(oid, clusterID)\<close>
  that have an entry.
\<close>

lemma entry_count_card_aux:
  assumes "kwf kd"
  shows "finite {(org, cid). klookup kd org cid \<noteq> None}
         \<and> entry_count kd = card {(org, cid). klookup kd org cid \<noteq> None}"
  using assms
proof (induction kd)
  case Nil
  then show ?case by (simp add: entry_count_def klookup_def)
next
  case (Cons p kd)
  obtain o' i' where p: "p = (o', i')" by (cases p)
  from Cons.prems p have tl: "kwf kd" and nin: "o' \<notin> fst ` set kd" and di: "distinct (map fst i')"
    by (auto simp: kwf_def)
  have none: "map_of kd o' = None"
    using nin by (simp add: map_of_eq_None_iff)
  have dom_i: "(map_of i' cid \<noteq> None) = (cid \<in> fst ` set i')" for cid
    by (simp add: map_of_eq_None_iff)
  have hd_lookup: "klookup (p # kd) org cid = (if org = o' then map_of i' cid else klookup kd org cid)" for org cid
    by (simp add: klookup_def p)
  have tl_none: "klookup kd o' cid = None" for cid
    by (simp add: klookup_def none)
  have split: "{(org, cid). klookup (p # kd) org cid \<noteq> None} =
        ({o'} \<times> fst ` set i') \<union> {(org, cid). klookup kd org cid \<noteq> None}"
  proof (rule set_eqI)
    fix x :: "int \<times> string"
    obtain org cid where x: "x = (org, cid)" by (cases x)
    show "x \<in> {(org, cid). klookup (p # kd) org cid \<noteq> None} \<longleftrightarrow>
          x \<in> ({o'} \<times> fst ` set i') \<union> {(org, cid). klookup kd org cid \<noteq> None}"
      unfolding x using dom_i[of cid] tl_none[of cid]
      by (cases "org = o'") (simp_all add: hd_lookup)
  qed
  have disj: "({o'} \<times> fst ` set i') \<inter> {(org, cid). klookup kd org cid \<noteq> None} = {}"
    using tl_none by auto
  from Cons.IH[OF tl] have fin: "finite {(org, cid). klookup kd org cid \<noteq> None}"
    and ih: "entry_count kd = card {(org, cid). klookup kd org cid \<noteq> None}"
    by simp_all
  have "card (fst ` set i') = length i'"
    using di distinct_card[of "map fst i'"] by simp
  then have hd_card: "card ({o'} \<times> fst ` set i') = length i'"
    by (simp add: card_cartesian_product)
  have "entry_count (p # kd) = length i' + entry_count kd"
    by (simp add: entry_count_def p)
  with hd_card ih fin disj show ?case
    unfolding split by (simp add: card_Un_disjoint)
qed

lemma entry_count_card:
  "kwf kd \<Longrightarrow> entry_count kd = card {(org, cid). klookup kd org cid \<noteq> None}"
  by (simp add: entry_count_card_aux)

subsection \<open>Add with an unchanged version\<close>

lemma Add_fst:
  "fst (Add oid info k w) = kfetch (k\<lparr>kubernetesData := snd (Add_store oid info (kubernetesData k))\<rparr>)"
  by (simp add: Add_def Let_def split: prod.splits option.splits)

lemma Add_untriggered:
  "fst (Add_store oid info (kubernetesData k)) \<Longrightarrow> snd (Add oid info k w) = w"
  by (cases "Add_store oid info (kubernetesData k)") (simp add: Add_def)

lemma kfetch_data: "kubernetesData (kfetch k) = kubernetesData k"
  by (simp add: kfetch_def)

text \<open>
  C3. If the store holds an entry for \<open>(oid, ClusterID info)\<close> whose version equals
  that of \<open>info\<close>, then after \<open>Add oid info\<close> the stored entry is the old one with
  the epoch and the error message of \<open>info\<close> (entries, version and the other fields as
  before), every other entry of the store is as before, \<open>unTriggerFlag\<close> is set and the
  world is untouched: no request is issued and nothing is logged, so the refresh
  trigger has not run.
\<close>

theorem Add_unchanged_version:
  assumes "klookup (kubernetesData k) oid (ClusterID info) = Some old"
      and "Version old = Version info"
  shows "klookup (kubernetesData (fst (Add oid info k w))) oid (ClusterID info)
           = Some (old\<lparr>Epoch := Epoch info, ErrorMSG := ErrorMSG info\<rparr>)
         \<and> (\<forall>stored. klookup (kubernetesData (fst (Add oid info k w))) oid (ClusterID info) = Some stored
               \<longrightarrow> Entries stored = Entries old \<and> Version stored = Version old
                   \<and> Epoch stored = Epoch info \<and> ErrorMSG stored = ErrorMSG info)
         \<and> (\<forall>org cid. (org, cid) \<noteq> (oid, ClusterID info)
               \<longrightarrow> klookup (kubernetesData (fst (Add oid info k w))) org cid
                     = klookup (kubernetesData k) org cid)
         \<and> fst (Add_store oid info (kubernetesData k))
         \<and> snd (Add oid info k w) = w"
proof -
  have flag: "fst (Add_store oid info (kubernetesData k))"
    by (rule Add_store_same_version(1)[OF assms])
  have lk: "klookup (kubernetesData (fst (Add oid info k w))) org cid =
           (if org = oid \<and> cid = ClusterID info
            then Some (old\<lparr>Epoch := Epoch info, ErrorMSG := ErrorMSG info\<rparr>)
            else klookup (kubernetesData k) org cid)" for org cid
    by (simp add: Add_fst kfetch_data Add_store_same_version(2)[OF assms])
  show ?thesis
    using flag Add_untriggered[OF flag] by (auto simp: lk)
qed

theorem Add_unchanged_version_witness:
  "klookup (kubernetesData kstore0) 1 (ClusterID info_v5_again) = Some info_v5
   \<and> Version info_v5 = Version info_v5_again
   \<and> klookup (kubernetesData (fst (Add 1 info_v5_again kstore0 world0))) 1 ''c1''
       = Some \<lparr>ORGID = 1, ClusterID = ''c1'', Version = 5, Epoch = 7 * Second, ErrorMSG = ''x'',
               Entries = [''E'']\<rparr>
   \<and> snd (Add 1 info_v5_again kstore0 world0) = world0"
proof -
  have h1: "klookup (kubernetesData kstore0) 1 (ClusterID info_v5_again) = Some info_v5"
    by (simp add: klookup_def kstore0_def info_v5_again_def)
  have h2: "Version info_v5 = Version info_v5_again"
    by (simp add: info_v5_def info_v5_again_def)
  from Add_unchanged_version[OF h1 h2, of world0] h1 h2 show ?thesis
    by (simp add: info_v5_def info_v5_again_def)
qed

subsection \<open>What fetch sends\<close>

lemma length_concat_entries:
  "length (concat (map (\<lambda>(org, inner). map snd inner) kd)) = entry_count kd"
  by (induction kd) (auto simp: entry_count_def)

lemma kfetch_channel:
  "kchannel (kfetch k) =
     kchannel k @ concat (map (\<lambda>(org, inner). map snd inner) (kubernetesData (kfetch k)))"
  by (simp add: kfetch_def)

lemma kfetch_length:
  "length (kchannel (kfetch k)) = length (kchannel k) + entry_count (kubernetesData (kfetch k))"
  by (simp add: kfetch_def length_concat_entries)

lemma kwf_krun_tick: "kwf (kubernetesData k) \<Longrightarrow> kwf (kubernetesData (krun_tick now k))"
  by (simp add: krun_tick_def kfetch_data kwf_aged)

lemma kwf_Add: "kwf (kubernetesData k) \<Longrightarrow> kwf (kubernetesData (fst (Add oid info k w)))"
  by (simp add: Add_fst kfetch_data kwf_Add_store)

text \<open>
  C10. Every \<open>Add\<close> and every pass of the aging loop appends to the channel one
  message per record of the store as it is after the mutation, over all organizations
  and clusters, whichever record changed. The number of sends is the number of stored
  entries: for a store with one entry per key, as a Go map has, the number of keys
  \<open>(orgID, clusterID)\<close> that hold a record.
\<close>

theorem fetch_rebroadcasts_whole_store:
  "kchannel (fst (Add oid info k w)) =
      kchannel k @ concat (map (\<lambda>(org, inner). map snd inner) (kubernetesData (fst (Add oid info k w))))
   \<and> length (kchannel (fst (Add oid info k w))) =
      length (kchannel k) + entry_count (kubernetesData (fst (Add oid info k w)))
   \<and> kchannel (krun_tick now k) =
      kchannel k @ concat (map (\<lambda>(org, inner). map snd inner) (kubernetesData (krun_tick now k)))
   \<and> length (kchannel (krun_tick now k)) =
      length (kchannel k) + entry_count (kubernetesData (krun_tick now k))
   \<and> (kwf (kubernetesData k) \<longrightarrow>
        kwf (kubernetesData (fst (Add oid info k w)))
        \<and> entry_count (kubernetesData (fst (Add oid info k w))) =
            card {(org, cid). klookup (kubernetesData (fst (Add oid info k w))) org cid \<noteq> None}
        \<and> kwf (kubernetesData (krun_tick now k))
        \<and> entry_count (kubernetesData (krun_tick now k)) =
            card {(org, cid). klookup (kubernetesData (krun_tick now k)) org cid \<noteq> None})"
proof -
  define ka where "ka = k\<lparr>kubernetesData := snd (Add_store oid info (kubernetesData k))\<rparr>"
  define kt where "kt = k\<lparr>kubernetesData :=
        map (\<lambda>(org, inner). (org, filter (\<lambda>(key, s). now - Epoch s \<le> AgingTime (kcfg k) * Second) inner))
            (kubernetesData k)\<rparr>"
  have a: "fst (Add oid info k w) = kfetch ka" "kchannel ka = kchannel k"
    by (simp_all add: ka_def Add_fst)
  have t: "krun_tick now k = kfetch kt" "kchannel kt = kchannel k"
    by (simp_all add: kt_def krun_tick_def)
  have sends: "kchannel (fst (Add oid info k w)) =
      kchannel k @ concat (map (\<lambda>(org, inner). map snd inner) (kubernetesData (fst (Add oid info k w))))
   \<and> length (kchannel (fst (Add oid info k w))) =
      length (kchannel k) + entry_count (kubernetesData (fst (Add oid info k w)))
   \<and> kchannel (krun_tick now k) =
      kchannel k @ concat (map (\<lambda>(org, inner). map snd inner) (kubernetesData (krun_tick now k)))
   \<and> length (kchannel (krun_tick now k)) =
      length (kchannel k) + entry_count (kubernetesData (krun_tick now k))"
    using kfetch_channel[of ka] kfetch_length[of ka] kfetch_channel[of kt] kfetch_length[of kt]
    by (simp only: a t simp_thms)
  have keys: "kwf (kubernetesData k) \<longrightarrow>
        kwf (kubernetesData (fst (Add oid info k w)))
        \<and> entry_count (kubernetesData (fst (Add oid info k w))) =
            card {(org, cid). klookup (kubernetesData (fst (Add oid info k w))) org cid \<noteq> None}
        \<and> kwf (kubernetesData (krun_tick now k))
        \<and> entry_count (kubernetesData (krun_tick now k)) =
            card {(org, cid). klookup (kubernetesData (krun_tick now k)) org cid \<noteq> None}"
    using kwf_Add[of k oid info w] kwf_krun_tick[of k now]
          entry_count_card[of "kubernetesData (fst (Add oid info k w))"]
          entry_count_card[of "kubernetesData (krun_tick now k)"]
    by blast
  from sends keys show ?thesis by blast
qed

text \<open>
  A second cluster of version 6 is added to the sample store at second 7: both records
  are sent. The aging loop then wakes at second 100 with an aging time of 60 seconds:
  the record of the first cluster, of epoch 0, is deleted and the other one is sent.
\<close>

theorem fetch_rebroadcasts_whole_store_witness:
  "kwf (kubernetesData kstore0)
   \<and> kchannel (fst (Add 1 info_c2 kstore0 world0)) = [info_v5, info_c2]
   \<and> card {(org, cid). klookup (kubernetesData (fst (Add 1 info_c2 kstore0 world0))) org cid \<noteq> None} = 2
   \<and> kchannel (krun_tick (100 * Second) (fst (Add 1 info_c2 kstore0 world0))) = [info_v5, info_c2, info_c2]
   \<and> card {(org, cid). klookup (kubernetesData (krun_tick (100 * Second) (fst (Add 1 info_c2 kstore0 world0)))) org cid \<noteq> None} = 1"
proof -
  let ?k1 = "fst (Add 1 info_c2 kstore0 world0)"
  have wf: "kwf (kubernetesData kstore0)"
    by (simp add: kwf_def kstore0_def)
  have store1: "kubernetesData ?k1 = [(1, [(''c1'', info_v5), (''c2'', info_c2)])]"
    by (simp add: Add_fst kfetch_data Add_store_def kstore0_def info_c2_def)
  have store2: "kubernetesData (krun_tick (100 * Second) ?k1) = [(1, [(''c2'', info_c2)])]"
    by (simp add: krun_tick_def kfetch_data store1)
       (simp add: Add_fst kfetch_def kstore0_def cfg0_def info_v5_def info_c2_def Second_def)
  have chan0: "kchannel kstore0 = []"
    by (simp add: kstore0_def)
  note T0 = fetch_rebroadcasts_whole_store[of 1 info_c2 kstore0 world0 "100 * Second"]
  note T1 = fetch_rebroadcasts_whole_store[of 1 info_c2 ?k1 world0 "100 * Second"]
  from T0 have chan1: "kchannel ?k1 = [info_v5, info_c2]"
    by (simp add: store1 chan0)
  from T0 wf have wf1: "kwf (kubernetesData ?k1)"
    and card1: "card {(org, cid). klookup (kubernetesData ?k1) org cid \<noteq> None} = entry_count (kubernetesData ?k1)"
    by simp_all
  from T1 have chan2: "kchannel (krun_tick (100 * Second) ?k1) = [info_v5, info_c2, info_c2]"
    by (simp add: store2 chan1)
  from T1 wf1 have card2: "card {(org, cid). klookup (kubernetesData (krun_tick (100 * Second) ?k1)) org cid \<noteq> None}
      = entry_count (kubernetesData (krun_tick (100 * Second) ?k1))"
    by simp
  have counts: "entry_count (kubernetesData ?k1) = 2"
    "entry_count (kubernetesData (krun_tick (100 * Second) ?k1)) = 1"
    by (simp_all add: store1 store2 entry_count_def)
  from wf chan1 chan2 card1 card2 counts show ?thesis
    by simp
qed

subsection \<open>The refresh trigger\<close>

text \<open>
  C6. With the organization's database at hand and the \<open>sub_domain\<close> rows of the
  cluster read: with no row, the domain is the first KUBERNETES domain with the cluster
  id and both lcuuid parameters are its lcuuid; with one row, the domain is the first
  KUBERNETES domain whose lcuuid is the row's domain, the domain lcuuid is the domain's
  and the sub-domain lcuuid the row's; with more rows the call returns the
  not-unique error and issues no request. The request goes to the controller's pod IP
  and \<open>listenPort\<close> when the pod IP is not empty, to the domain's controller IP and
  \<open>listenNodePort\<close> otherwise.
\<close>

theorem triggerCloudRrefresh_resolution:
  assumes "GetDB w org = Inr d"
      and "Find d FindSubDomains (\<lambda>r. SubDomain_ClusterID r = clusterID) (sub_domain d) = Inr subDomains"
  shows "(subDomains = [] \<longrightarrow>
            (\<forall>dm c.
               First d FirstDomain (\<lambda>r. Domain_ClusterID r = clusterID \<and> Domain_Type r = KUBERNETES) (domain d) = Inr dm
               \<and> First d FirstController
                    (\<lambda>r. Controller_IP r = Domain_ControllerIP dm \<and> Controller_State r \<noteq> CONTROLLER_STATE_EXCEPTION)
                    (controller d) = Inr c
               \<longrightarrow> requests (snd (triggerCloudRrefresh k org clusterID version w)) =
                     requests w @
                     [\<lparr>req_url = ''http://'' @
                          (if Controller_PodIP c \<noteq> []
                           then JoinHostPort (Controller_PodIP c) (Itoa (listenPort k))
                           else JoinHostPort (Domain_ControllerIP dm) (Itoa (listenNodePort k)))
                          @ ''/v1/kubernetes-refresh/'',
                       req_timeout = 30,
                       req_query = [(''domain_lcuuid'', Domain_Lcuuid dm),
                                    (''sub_domain_lcuuid'', Domain_Lcuuid dm),
                                    (''version'', Itoa (sint version))]\<rparr>]))
         \<and> (\<forall>sd. subDomains = [sd] \<longrightarrow>
            (\<forall>dm c.
               First d FirstDomain (\<lambda>r. Domain_Lcuuid r = SubDomain_Domain sd \<and> Domain_Type r = KUBERNETES) (domain d) = Inr dm
               \<and> First d FirstController
                    (\<lambda>r. Controller_IP r = Domain_ControllerIP dm \<and> Controller_State r \<noteq> CONTROLLER_STATE_EXCEPTION)
                    (controller d) = Inr c
               \<longrightarrow> requests (snd (triggerCloudRrefresh k org clusterID version w)) =
                     requests w @
                     [\<lparr>req_url = ''http://'' @
                          (if Controller_PodIP c \<noteq> []
                           then JoinHostPort (Controller_PodIP c) (Itoa (listenPort k))
                           else JoinHostPort (Domain_ControllerIP dm) (Itoa (listenNodePort k)))
                          @ ''/v1/kubernetes-refresh/'',
                       req_timeout = 30,
                       req_query = [(''domain_lcuuid'', Domain_Lcuuid dm),
                                    (''sub_domain_lcuuid'', SubDomain_Lcuuid sd),
                                    (''version'', Itoa (sint version))]\<rparr>]))
         \<and> (1 < length subDomains \<longrightarrow>
              fst (triggerCloudRrefresh k org clusterID version w) = Some (NotUnique clusterID)
              \<and> requests (snd (triggerCloudRrefresh k org clusterID version w)) = requests w)"
proof (intro conjI impI allI)
  fix dm c
  assume "subDomains = []"
    and "First d FirstDomain (\<lambda>r. Domain_ClusterID r = clusterID \<and> Domain_Type r = KUBERNETES) (domain d) = Inr dm
         \<and> First d FirstController
              (\<lambda>r. Controller_IP r = Domain_ControllerIP dm \<and> Controller_State r \<noteq> CONTROLLER_STATE_EXCEPTION)
              (controller d) = Inr c"
  then show "requests (snd (triggerCloudRrefresh k org clusterID version w)) =
                     requests w @
                     [\<lparr>req_url = ''http://'' @
                          (if Controller_PodIP c \<noteq> []
                           then JoinHostPort (Controller_PodIP c) (Itoa (listenPort k))
                           else JoinHostPort (Domain_ControllerIP dm) (Itoa (listenNodePort k)))
                          @ ''/v1/kubernetes-refresh/'',
                       req_timeout = 30,
                       req_query = [(''domain_lcuuid'', Domain_Lcuuid dm),
                                    (''sub_domain_lcuuid'', Domain_Lcuuid dm),
                                    (''version'', Itoa (sint version))]\<rparr>]"
    using assms
    by (simp add: triggerCloudRrefresh_def resolve_domain_def RequestGet_def log_msg_def Let_def)
next
  fix sd dm c
  assume "subDomains = [sd]"
    and "First d FirstDomain (\<lambda>r. Domain_Lcuuid r = SubDomain_Domain sd \<and> Domain_Type r = KUBERNETES) (domain d) = Inr dm
         \<and> First d FirstController
              (\<lambda>r. Controller_IP r = Domain_ControllerIP dm \<and> Controller_State r \<noteq> CONTROLLER_STATE_EXCEPTION)
              (controller d) = Inr c"
  then show "requests (snd (triggerCloudRrefresh k org clusterID version w)) =
                     requests w @
                     [\<lparr>req_url = ''http://'' @
                          (if Controller_PodIP c \<noteq> []
                           then JoinHostPort (Controller_PodIP c) (Itoa (listenPort k))
                           else JoinHostPort (Domain_ControllerIP dm) (Itoa (listenNodePort k)))
                          @ ''/v1/kubernetes-refresh/'',
                       req_timeout = 30,
                       req_query = [(''domain_lcuuid'', Domain_Lcuuid dm),
                                    (''sub_domain_lcuuid'', SubDomain_Lcuuid sd),
                                    (''version'', Itoa (sint version))]\<rparr>]"
    using assms
    by (simp add: triggerCloudRrefresh_def resolve_domain_def RequestGet_def log_msg_def Let_def)
next
  assume len: "1 < length subDomains"
  then obtain a b rest where sds: "subDomains = a # b # rest"
    by (cases subDomains; cases "tl subDomains") auto
  show "fst (triggerCloudRrefresh k org clusterID version w) = Some (NotUnique clusterID)"
    using assms by (simp add: triggerCloudRrefresh_def resolve_domain_def sds)
  show "requests (snd (triggerCloudRrefresh k org clusterID version w)) = requests w"
    using assms by (simp add: triggerCloudRrefresh_def resolve_domain_def sds)
qed

lemma Itoa_samples:
  "Itoa 30417 = ''30417''" "Itoa 20417 = ''20417''"
  "Itoa 5 = ''5''" "Itoa 6 = ''6''"
  by (simp_all add: Itoa_def digits.simps digit_char_def)

theorem triggerCloudRrefresh_resolution_witness:
  "requests (snd (triggerCloudRrefresh kstore0 1 ''c1'' 5 world0)) =
     [\<lparr>req_url = ''http://10.0.0.1:30417/v1/kubernetes-refresh/'', req_timeout = 30,
       req_query = [(''domain_lcuuid'', ''d1''), (''sub_domain_lcuuid'', ''d1''), (''version'', ''5'')]\<rparr>]
   \<and> requests (snd (triggerCloudRrefresh kstore0 1 ''c2'' 6 world0)) =
     [\<lparr>req_url = ''http://172.16.0.2:20417/v1/kubernetes-refresh/'', req_timeout = 30,
       req_query = [(''domain_lcuuid'', ''d2''), (''sub_domain_lcuuid'', ''sd1''), (''version'', ''6'')]\<rparr>]
   \<and> fst (triggerCloudRrefresh kstore0 1 ''c3'' 6 world0) = Some (NotUnique ''c3'')
   \<and> requests (snd (triggerCloudRrefresh kstore0 1 ''c3'' 6 world0)) = []"
proof -
  let ?d1 = "\<lparr>Domain_Lcuuid = ''d1'', Domain_ClusterID = ''c1'', Domain_Type = KUBERNETES,
              Domain_ControllerIP = ''10.0.0.1''\<rparr>"
  let ?d2 = "\<lparr>Domain_Lcuuid = ''d2'', Domain_ClusterID = ''c0'', Domain_Type = KUBERNETES,
              Domain_ControllerIP = ''10.0.0.2''\<rparr>"
  let ?c1 = "\<lparr>Controller_IP = ''10.0.0.1'', Controller_PodIP = [], Controller_State = OTHER_CONTROLLER_STATE 2\<rparr>"
  let ?c2 = "\<lparr>Controller_IP = ''10.0.0.2'', Controller_PodIP = ''172.16.0.2'',
              Controller_State = OTHER_CONTROLLER_STATE 2\<rparr>"
  let ?sd1 = "\<lparr>SubDomain_Lcuuid = ''sd1'', SubDomain_Domain = ''d2'', SubDomain_ClusterID = ''c2''\<rparr>"
  let ?sd3a = "\<lparr>SubDomain_Lcuuid = ''sd3a'', SubDomain_Domain = ''d1'', SubDomain_ClusterID = ''c3''\<rparr>"
  let ?sd3b = "\<lparr>SubDomain_Lcuuid = ''sd3b'', SubDomain_Domain = ''d1'', SubDomain_ClusterID = ''c3''\<rparr>"
  have session: "GetDB world0 1 = Inr db0"
    by (simp add: GetDB_def world0_def)
  have rows1: "Find db0 FindSubDomains (\<lambda>r. SubDomain_ClusterID r = ''c1'') (sub_domain db0) = Inr []"
    and rows2: "Find db0 FindSubDomains (\<lambda>r. SubDomain_ClusterID r = ''c2'') (sub_domain db0) = Inr [?sd1]"
    and rows3: "Find db0 FindSubDomains (\<lambda>r. SubDomain_ClusterID r = ''c3'') (sub_domain db0) = Inr [?sd3a, ?sd3b]"
    by (simp_all add: Find_def failing_def db0_def)
  have dom1: "First db0 FirstDomain (\<lambda>r. Domain_ClusterID r = ''c1'' \<and> Domain_Type r = KUBERNETES) (domain db0) = Inr ?d1"
    and dom2: "First db0 FirstDomain (\<lambda>r. Domain_Lcuuid r = SubDomain_Domain ?sd1 \<and> Domain_Type r = KUBERNETES) (domain db0) = Inr ?d2"
    and ctl1: "First db0 FirstController
                 (\<lambda>r. Controller_IP r = Domain_ControllerIP ?d1 \<and> Controller_State r \<noteq> CONTROLLER_STATE_EXCEPTION)
                 (controller db0) = Inr ?c1"
    and ctl2: "First db0 FirstController
                 (\<lambda>r. Controller_IP r = Domain_ControllerIP ?d2 \<and> Controller_State r \<noteq> CONTROLLER_STATE_EXCEPTION)
                 (controller db0) = Inr ?c2"
    by (simp_all add: First_def failing_def db0_def)
  have none: "requests (snd (triggerCloudRrefresh kstore0 1 ''c1'' 5 world0)) =
     [\<lparr>req_url = ''http://10.0.0.1:30417/v1/kubernetes-refresh/'', req_timeout = 30,
       req_query = [(''domain_lcuuid'', ''d1''), (''sub_domain_lcuuid'', ''d1''), (''version'', ''5'')]\<rparr>]"
    using triggerCloudRrefresh_resolution[OF session rows1, of kstore0 5,
            THEN conjunct1, rule_format, OF refl conjI[OF dom1 ctl1]]
    by (simp add: Itoa_samples JoinHostPort_def kstore0_def world0_def)
  have one: "requests (snd (triggerCloudRrefresh kstore0 1 ''c2'' 6 world0)) =
     [\<lparr>req_url = ''http://172.16.0.2:20417/v1/kubernetes-refresh/'', req_timeout = 30,
       req_query = [(''domain_lcuuid'', ''d2''), (''sub_domain_lcuuid'', ''sd1''), (''version'', ''6'')]\<rparr>]"
    using triggerCloudRrefresh_resolution[OF session rows2, of kstore0 6,
            THEN conjunct2, THEN conjunct1, rule_format, OF refl conjI[OF dom2 ctl2]]
    by (simp add: Itoa_samples JoinHostPort_def kstore0_def world0_def)
  have many: "fst (triggerCloudRrefresh kstore0 1 ''c3'' 6 world0) = Some (NotUnique ''c3'')
     \<and> requests (snd (triggerCloudRrefresh kstore0 1 ''c3'' 6 world0)) = []"
    using triggerCloudRrefresh_resolution[OF session rows3, of kstore0 6,
            THEN conjunct2, THEN conjunct2, rule_format]
    by (simp add: world0_def)
  from none one many show ?thesis by simp
qed

section \<open>Properties of SyncStorage\<close>

subsection \<open>The slots after Renew and Update\<close>

lemma renew_slot_apply:
  "renew_slot f data now g f' =
     (if f' = f
      then (case data f of None \<Rightarrow> g f | Some d \<Rightarrow> op_Renew (op_Fetch d) now (g f))
      else g f')"
  by (simp add: renew_slot_def split: option.splits)

lemma update_slot_flag: "fst (update_slot f data now p) = (fst p \<or> data f \<noteq> None)"
  by (simp add: update_slot_def split: option.splits)

lemma update_slot_apply:
  "snd (update_slot f data now p) f' =
     (if f' = f
      then (case data f of None \<Rightarrow> snd p f | Some d \<Rightarrow> op_Update (op_Fetch d) now (snd p f))
      else snd p f')"
  by (simp add: update_slot_def split: option.splits)

lemma some_family:
  "(data VIPs \<noteq> None \<or> data VMs \<noteq> None \<or> data VPCs \<noteq> None \<or> data Hosts \<noteq> None
    \<or> data Lldps \<noteq> None \<or> data Ports \<noteq> None \<or> data Networks \<noteq> None
    \<or> data IPlastseens \<noteq> None \<or> data Vinterfaces \<noteq> None \<or> data Processes \<noteq> None)
   = (\<exists>f. data f \<noteq> None)"
proof
  assume "\<exists>f. data f \<noteq> None"
  then obtain f where "data f \<noteq> None" ..
  then show "data VIPs \<noteq> None \<or> data VMs \<noteq> None \<or> data VPCs \<noteq> None \<or> data Hosts \<noteq> None
    \<or> data Lldps \<noteq> None \<or> data Ports \<noteq> None \<or> data Networks \<noteq> None
    \<or> data IPlastseens \<noteq> None \<or> data Vinterfaces \<noteq> None \<or> data Processes \<noteq> None"
    by (cases f) simp_all
qed blast

lemma fetch_snapshot:
  "fetch s = s\<lparr>channel := channel s @ [\<lambda>f. op_Fetch (genesisSyncInfo s f)]\<rparr>"
proof -
  have "(\<lambda>f. case f of
                VIPs \<Rightarrow> op_Fetch (genesisSyncInfo s VIPs)
              | VMs \<Rightarrow> op_Fetch (genesisSyncInfo s VMs)
              | VPCs \<Rightarrow> op_Fetch (genesisSyncInfo s VPCs)
              | Hosts \<Rightarrow> op_Fetch (genesisSyncInfo s Hosts)
              | Ports \<Rightarrow> op_Fetch (genesisSyncInfo s Ports)
              | Lldps \<Rightarrow> op_Fetch (genesisSyncInfo s Lldps)
              | IPlastseens \<Rightarrow> op_Fetch (genesisSyncInfo s IPlastseens)
              | Networks \<Rightarrow> op_Fetch (genesisSyncInfo s Networks)
              | Vinterfaces \<Rightarrow> op_Fetch (genesisSyncInfo s Vinterfaces)
              | Processes \<Rightarrow> op_Fetch (genesisSyncInfo s Processes))
        = (\<lambda>f. op_Fetch (genesisSyncInfo s f))"
    by (rule ext) (simp split: family.splits)
  then show ?thesis by (simp add: fetch_def)
qed

lemma Update_unfold:
  "Update now data info s w =
     (let s1 = s\<lparr>genesisSyncInfo := updated data now (genesisSyncInfo s)\<rparr>
      in if (\<exists>f. data f \<noteq> None) \<and> vtapID info \<noteq> 0
         then (case GetDB w (orgID info) of
                 Inl err \<Rightarrow> (fetch s1, log_msg LError ''get mysql session failed'' (Some (orgID info)) w)
               | Inr d \<Rightarrow>
                   ((fetch s1)\<lparr>dirty := True\<rparr>,
                    PutDB (orgID info)
                      (Create_OnConflict \<lparr>VtapID = vtapID info, NodeIP = NODE_IP w\<rparr> (NODE_IP w) d) w))
         else (s1\<lparr>dirty := True\<rparr>, w))"
proof -
  define p where "p =
     update_slot Processes data now (update_slot Vinterfaces data now (update_slot IPlastseens data now
       (update_slot Networks data now (update_slot Ports data now (update_slot Lldps data now
         (update_slot Hosts data now (update_slot VPCs data now (update_slot VMs data now
           (update_slot VIPs data now (False, genesisSyncInfo s))))))))))"
  have flag: "fst p = (\<exists>f. data f \<noteq> None)"
    unfolding p_def using some_family[of data] by (simp add: update_slot_flag)
  have slots: "snd p = updated data now (genesisSyncInfo s)"
  proof (rule ext)
    fix f show "snd p f = updated data now (genesisSyncInfo s) f"
      unfolding p_def by (cases f) (simp_all add: update_slot_apply cong: option.case_cong)
  qed
  have "Update now data info s w =
     (if fst p \<and> vtapID info \<noteq> 0
         then (case GetDB w (orgID info) of
                 Inl err \<Rightarrow> (fetch (s\<lparr>genesisSyncInfo := snd p\<rparr>), log_msg LError ''get mysql session failed'' (Some (orgID info)) w)
               | Inr d \<Rightarrow>
                   ((fetch (s\<lparr>genesisSyncInfo := snd p\<rparr>))\<lparr>dirty := True\<rparr>,
                    PutDB (orgID info)
                      (Create_OnConflict \<lparr>VtapID = vtapID info, NodeIP = NODE_IP w\<rparr> (NODE_IP w) d) w))
         else (s\<lparr>genesisSyncInfo := snd p, dirty := True\<rparr>, w))"
    unfolding Update_def p_def Let_def by (rule refl)
  then show ?thesis
    unfolding flag slots Let_def .
qed

subsection \<open>Renew\<close>

text \<open>
  C7. \<open>Renew\<close> leaves the dirty flag, the channel and the world (databases, requests,
  log) as they are, whatever families the argument holds; in the aggregate, the slot of
  each family present in the argument is that family's \<open>Renew\<close> of the argument's
  records at the instant passed, and every other slot is unchanged.
\<close>

theorem Renew_frame:
  "dirty (fst (Renew now data s w)) = dirty s
   \<and> channel (fst (Renew now data s w)) = channel s
   \<and> cfg (fst (Renew now data s w)) = cfg s
   \<and> vCtx_cancelled (fst (Renew now data s w)) = vCtx_cancelled s
   \<and> snd (Renew now data s w) = w
   \<and> (\<forall>f. genesisSyncInfo (fst (Renew now data s w)) f =
            (case data f of
               None \<Rightarrow> genesisSyncInfo s f
             | Some d \<Rightarrow> op_Renew (op_Fetch d) now (genesisSyncInfo s f)))"
proof -
  have slots: "genesisSyncInfo (fst (Renew now data s w)) f =
            (case data f of
               None \<Rightarrow> genesisSyncInfo s f
             | Some d \<Rightarrow> op_Renew (op_Fetch d) now (genesisSyncInfo s f))" for f
    by (cases f) (simp_all add: Renew_def Let_def renew_slot_apply cong: option.case_cong)
  have frame: "dirty (fst (Renew now data s w)) = dirty s"
    "channel (fst (Renew now data s w)) = channel s"
    "cfg (fst (Renew now data s w)) = cfg s"
    "vCtx_cancelled (fst (Renew now data s w)) = vCtx_cancelled s"
    "snd (Renew now data s w) = w"
    by (simp_all add: Renew_def Let_def)
  from slots frame show ?thesis by blast
qed

subsection \<open>Update and the dirty flag\<close>

lemma fetch_fields:
  "dirty (fetch s) = dirty s" "genesisSyncInfo (fetch s) = genesisSyncInfo s"
  "cfg (fetch s) = cfg s" "vCtx_cancelled (fetch s) = vCtx_cancelled s"
  by (simp_all add: fetch_def)

text \<open>
  The claim C2 says that \<open>Update\<close> leaves the dirty flag as it is when the argument
  holds no family. The source assigns the flag after the conditional, outside of it: an
  \<open>Update\<close> with an empty argument on a clean engine makes it dirty.
\<close>

theorem Update_no_family_dirty_counterexample:
  "dirty (fst (Update (5 * Second) data_none info_vtap7 engine0 world0)) \<noteq> dirty engine0"
  by (simp add: Update_unfold data_none_def engine0_def)

text \<open>
  C2, amended. \<open>Update\<close> sets the dirty flag on every call that reaches its last
  statement, whether or not a family is present: when no family is present, when the
  agent id is zero, or when the organization's database session is obtained.
\<close>

theorem Update_sets_dirty:
  assumes "(\<forall>f. data f = None) \<or> vtapID info = 0 \<or> (\<exists>d. GetDB w (orgID info) = Inr d)"
  shows "dirty (fst (Update now data info s w))"
  using assms
  by (auto simp: Update_unfold Let_def fetch_fields)

theorem Update_sets_dirty_witness:
  "(\<forall>f. data_none f = None) \<and> \<not> dirty engine0
   \<and> dirty (fst (Update (5 * Second) data_none info_vtap7 engine0 world0))
   \<and> GetDB world0 (orgID info_vtap7) = Inr db0
   \<and> dirty (fst (Update (5 * Second) data_vms info_vtap7 engine0 world0))"
proof -
  have none: "\<forall>f. data_none f = None"
    by (simp add: data_none_def)
  have session: "GetDB world0 (orgID info_vtap7) = Inr db0"
    by (simp add: GetDB_def world0_def info_vtap7_def)
  have clean: "\<not> dirty engine0"
    by (simp add: engine0_def)
  have a: "dirty (fst (Update (5 * Second) data_none info_vtap7 engine0 world0))"
    using none by (intro Update_sets_dirty) simp
  have b: "dirty (fst (Update (5 * Second) data_vms info_vtap7 engine0 world0))"
    using session by (intro Update_sets_dirty) simp
  from none session clean a b show ?thesis by simp
qed

subsection \<open>Update: the snapshot and the ownership row\<close>

lemma fetch_channel: "channel (fetch s) = channel s @ [\<lambda>f. op_Fetch (genesisSyncInfo s f)]"
  by (simp add: fetch_snapshot)

text \<open>
  After the statement has succeeded, the table holds the row \<open>(vtap_id, node_ip)\<close>, and
  the rows of the other agents are those it held before.
\<close>

lemma Create_OnConflict_row:
  assumes "\<not> failing d CreateStorage"
  shows "\<lparr>VtapID = v, NodeIP = ip\<rparr> \<in> set (genesis_storage (Create_OnConflict \<lparr>VtapID = v, NodeIP = ip\<rparr> ip d))"
    and "filter (\<lambda>r. VtapID r \<noteq> v) (genesis_storage (Create_OnConflict \<lparr>VtapID = v, NodeIP = ip\<rparr> ip d))
           = filter (\<lambda>r. VtapID r \<noteq> v) (genesis_storage d)"
proof -
  have upd: "VtapID r = v \<Longrightarrow> r\<lparr>NodeIP := ip\<rparr> = \<lparr>VtapID = v, NodeIP = ip\<rparr>" for r :: GenesisStorage
    by (cases r) simp
  show "\<lparr>VtapID = v, NodeIP = ip\<rparr> \<in> set (genesis_storage (Create_OnConflict \<lparr>VtapID = v, NodeIP = ip\<rparr> ip d))"
    using assms upd by (auto simp: Create_OnConflict_def image_iff intro!: bexI)
  have keep: "filter (\<lambda>r. VtapID r \<noteq> v) (map (\<lambda>r. if VtapID r = v then r\<lparr>NodeIP := ip\<rparr> else r) tbl)
        = filter (\<lambda>r. VtapID r \<noteq> v) tbl" for tbl
    by (induction tbl) auto
  show "filter (\<lambda>r. VtapID r \<noteq> v) (genesis_storage (Create_OnConflict \<lparr>VtapID = v, NodeIP = ip\<rparr> ip d))
           = filter (\<lambda>r. VtapID r \<noteq> v) (genesis_storage d)"
    using assms by (simp add: Create_OnConflict_def keep)
qed

text \<open>
  The claim C8 says that a family present and a non-zero agent id always give the push
  followed by the upsert. When the organization's database session cannot be obtained,
  the source pushes the snapshot, logs the error and returns: nothing is written.
\<close>

theorem Update_push_without_upsert_counterexample:
  "data_vms VMs \<noteq> None \<and> vtapID info_no_session \<noteq> 0
   \<and> length (channel (fst (Update (5 * Second) data_vms info_no_session engine0 world0))) = 1
   \<and> dbs (snd (Update (5 * Second) data_vms info_no_session engine0 world0)) = dbs world0"
proof -
  have present: "\<exists>f. data_vms f \<noteq> None"
    by (rule exI[of _ VMs]) (simp add: data_vms_def)
  have session: "GetDB world0 (orgID info_no_session) = Inl (SessionError 5)"
    by (simp add: GetDB_def world0_def info_no_session_def)
  have agent: "vtapID info_no_session \<noteq> 0"
    by (simp add: info_no_session_def)
  have empty: "channel engine0 = []"
    by (simp add: engine0_def)
  show ?thesis
    using present agent
    by (simp add: Update_unfold Let_def session fetch_channel log_msg_def empty)
       (simp add: data_vms_def)
qed

lemma GetDB_PutDB:
  "GetDB (PutDB org d w) org' = (if org' = org then Inr d else GetDB w org')"
  by (simp add: GetDB_def PutDB_def update_conv')

lemma PutDB_fields:
  "logs (PutDB org d w) = logs w" "requests (PutDB org d w) = requests w"
  "NODE_IP (PutDB org d w) = NODE_IP w" "http_failing (PutDB org d w) = http_failing w"
  by (simp_all add: PutDB_def)

lemma Create_OnConflict_table:
  "Create_OnConflict row ip d =
     (if failing d CreateStorage then d
      else d\<lparr>genesis_storage :=
             (if VtapID row \<in> set (map VtapID (genesis_storage d))
              then map (\<lambda>r. if VtapID r = VtapID row then r\<lparr>NodeIP := ip\<rparr> else r) (genesis_storage d)
              else genesis_storage d @ [row])\<rparr>)"
  by (simp add: Create_OnConflict_def)

text \<open>
  C8, amended. If at least one family is present and the agent id is not zero, exactly
  one snapshot of the ten families (as they are after the update) is pushed. After it,
  if the organization's database session is obtained, the upsert of the row
  \<open>(vtap_id = vtapID, node_ip = NODE_IP)\<close> into \<open>genesis_storage\<close> of that database
  is issued and nothing is logged: when the statement succeeds, a row with that
  \<open>vtap_id\<close> gets the new \<open>node_ip\<close> and otherwise the row is inserted, so the table
  holds the row, the rows of the other agents, the other tables and the other
  organizations' databases are as before; when the statement fails, its error is
  ignored and every database is as before. If the session is not obtained, the error is
  logged with the organization and nothing else changes: no database is written. If
  no family is present or the agent id is zero, nothing is pushed and the world is as
  before.
\<close>

theorem Update_push_and_upsert:
  "((\<exists>f. data f \<noteq> None) \<and> vtapID info \<noteq> 0 \<longrightarrow>
      channel (fst (Update now data info s w)) =
        channel s @ [\<lambda>f. op_Fetch (genesisSyncInfo (fst (Update now data info s w)) f)]
      \<and> genesisSyncInfo (fst (Update now data info s w)) = updated data now (genesisSyncInfo s)
      \<and> (\<forall>d. GetDB w (orgID info) = Inr d \<longrightarrow>
            snd (Update now data info s w) =
              PutDB (orgID info)
                (Create_OnConflict \<lparr>VtapID = vtapID info, NodeIP = NODE_IP w\<rparr> (NODE_IP w) d) w
            \<and> logs (snd (Update now data info s w)) = logs w
            \<and> requests (snd (Update now data info s w)) = requests w
            \<and> (\<forall>org. org \<noteq> orgID info \<longrightarrow>
                  GetDB (snd (Update now data info s w)) org = GetDB w org)
            \<and> (\<not> failing d CreateStorage \<longrightarrow>
                 (let tbl = (if vtapID info \<in> set (map VtapID (genesis_storage d))
                             then map (\<lambda>r. if VtapID r = vtapID info then r\<lparr>NodeIP := NODE_IP w\<rparr> else r)
                                    (genesis_storage d)
                             else genesis_storage d @ [\<lparr>VtapID = vtapID info, NodeIP = NODE_IP w\<rparr>])
                  in GetDB (snd (Update now data info s w)) (orgID info) = Inr (d\<lparr>genesis_storage := tbl\<rparr>)
                     \<and> \<lparr>VtapID = vtapID info, NodeIP = NODE_IP w\<rparr> \<in> set tbl
                     \<and> filter (\<lambda>r. VtapID r \<noteq> vtapID info) tbl
                         = filter (\<lambda>r. VtapID r \<noteq> vtapID info) (genesis_storage d)))
            \<and> (failing d CreateStorage \<longrightarrow>
                 GetDB (snd (Update now data info s w)) (orgID info) = Inr d))
      \<and> (\<forall>err. GetDB w (orgID info) = Inl err \<longrightarrow>
            snd (Update now data info s w) =
              w\<lparr>logs := logs w @ [Log LError ''get mysql session failed'' (Some (orgID info))]\<rparr>
            \<and> logs (snd (Update now data info s w)) =
                logs w @ [Log LError ''get mysql session failed'' (Some (orgID info))]
            \<and> dbs (snd (Update now data info s w)) = dbs w))
   \<and> ((\<forall>f. data f = None) \<or> vtapID info = 0 \<longrightarrow>
      channel (fst (Update now data info s w)) = channel s \<and> snd (Update now data info s w) = w)"
proof (intro conjI impI allI)
  assume a: "(\<exists>f. data f \<noteq> None) \<and> vtapID info \<noteq> 0"
  show "channel (fst (Update now data info s w)) =
        channel s @ [\<lambda>f. op_Fetch (genesisSyncInfo (fst (Update now data info s w)) f)]"
    using a by (cases "GetDB w (orgID info)") (simp_all add: Update_unfold Let_def fetch_channel fetch_fields)
  show "genesisSyncInfo (fst (Update now data info s w)) = updated data now (genesisSyncInfo s)"
    using a by (cases "GetDB w (orgID info)") (simp_all add: Update_unfold Let_def fetch_fields)
  {
    fix d
    assume session: "GetDB w (orgID info) = Inr d"
    let ?row = "\<lparr>VtapID = vtapID info, NodeIP = NODE_IP w\<rparr>"
    show written: "snd (Update now data info s w) =
              PutDB (orgID info) (Create_OnConflict ?row (NODE_IP w) d) w"
      using a session by (simp add: Update_unfold Let_def)
    show "logs (snd (Update now data info s w)) = logs w"
      by (simp add: written PutDB_fields)
    show "requests (snd (Update now data info s w)) = requests w"
      by (simp add: written PutDB_fields)
    {
      fix org
      assume "org \<noteq> orgID info"
      then show "GetDB (snd (Update now data info s w)) org = GetDB w org"
        by (simp add: written GetDB_PutDB)
    }
    {
      assume ok: "\<not> failing d CreateStorage"
      define tbl where "tbl = (if vtapID info \<in> set (map VtapID (genesis_storage d))
                             then map (\<lambda>r. if VtapID r = vtapID info then r\<lparr>NodeIP := NODE_IP w\<rparr> else r)
                                    (genesis_storage d)
                             else genesis_storage d @ [?row])"
      have created: "Create_OnConflict ?row (NODE_IP w) d = d\<lparr>genesis_storage := tbl\<rparr>"
        using ok by (simp add: Create_OnConflict_table tbl_def)
      have after: "GetDB (snd (Update now data info s w)) (orgID info) = Inr (d\<lparr>genesis_storage := tbl\<rparr>)"
        by (simp add: written GetDB_PutDB created)
      have row: "?row \<in> set tbl"
        using Create_OnConflict_row(1)[OF ok, of "vtapID info" "NODE_IP w"] by (simp add: created)
      have others: "filter (\<lambda>r. VtapID r \<noteq> vtapID info) tbl
                         = filter (\<lambda>r. VtapID r \<noteq> vtapID info) (genesis_storage d)"
        using Create_OnConflict_row(2)[OF ok, of "vtapID info" "NODE_IP w"] by (simp add: created)
      from after row others
      show "let tbl = (if vtapID info \<in> set (map VtapID (genesis_storage d))
                             then map (\<lambda>r. if VtapID r = vtapID info then r\<lparr>NodeIP := NODE_IP w\<rparr> else r)
                                    (genesis_storage d)
                             else genesis_storage d @ [\<lparr>VtapID = vtapID info, NodeIP = NODE_IP w\<rparr>])
                  in GetDB (snd (Update now data info s w)) (orgID info) = Inr (d\<lparr>genesis_storage := tbl\<rparr>)
                     \<and> \<lparr>VtapID = vtapID info, NodeIP = NODE_IP w\<rparr> \<in> set tbl
                     \<and> filter (\<lambda>r. VtapID r \<noteq> vtapID info) tbl
                         = filter (\<lambda>r. VtapID r \<noteq> vtapID info) (genesis_storage d)"
        unfolding Let_def tbl_def[symmetric] by simp
    }
    {
      assume "failing d CreateStorage"
      then show "GetDB (snd (Update now data info s w)) (orgID info) = Inr d"
        by (simp add: written GetDB_PutDB Create_OnConflict_table)
    }
  }
  {
    fix err
    assume none: "GetDB w (orgID info) = Inl err"
    show logged: "snd (Update now data info s w) =
              w\<lparr>logs := logs w @ [Log LError ''get mysql session failed'' (Some (orgID info))]\<rparr>"
      using a none by (simp add: Update_unfold Let_def log_msg_def)
    show "logs (snd (Update now data info s w)) =
                logs w @ [Log LError ''get mysql session failed'' (Some (orgID info))]"
      by (simp add: logged)
    show "dbs (snd (Update now data info s w)) = dbs w"
      by (simp add: logged)
  }
next
  assume b: "(\<forall>f. data f = None) \<or> vtapID info = 0"
  then show "channel (fst (Update now data info s w)) = channel s"
    by (auto simp: Update_unfold Let_def)
  from b show "snd (Update now data info s w) = w"
    by (auto simp: Update_unfold Let_def)
qed

text \<open>
  The amended claim on the sample engine: agent 7, which has no ownership row, is
  inserted; agent 2, which has one, gets the node's address; on a session where the
  statement fails the snapshot is pushed and the table stays as it was, with nothing
  logged; without a session the error is logged and no database is written; with no
  family present nothing happens.
\<close>

theorem Update_push_and_upsert_witness:
  "(\<exists>f. data_vms f \<noteq> None) \<and> vtapID info_vtap7 \<noteq> 0
   \<and> GetDB world0 (orgID info_vtap7) = Inr db0
   \<and> length (channel (fst (Update (5 * Second) data_vms info_vtap7 engine0 world0))) = 1
   \<and> map res_key (last (channel (fst (Update (5 * Second) data_vms info_vtap7 engine0 world0))) VMs)
        = [''a'', ''b'']
   \<and> GetDB (snd (Update (5 * Second) data_vms info_vtap7 engine0 world0)) 1 =
        Inr (db0\<lparr>genesis_storage :=
               [\<lparr>VtapID = 1, NodeIP = ''10.0.0.9''\<rparr>, \<lparr>VtapID = 2, NodeIP = ''10.0.0.9''\<rparr>,
                \<lparr>VtapID = 99, NodeIP = ''10.0.0.9''\<rparr>, \<lparr>VtapID = 7, NodeIP = ''10.0.0.9''\<rparr>]\<rparr>)
   \<and> logs (snd (Update (5 * Second) data_vms info_vtap7 engine0 world0)) = []
   \<and> GetDB (snd (Update (5 * Second) data_vms info_vtap2 engine0 world_other_node)) 1 =
        Inr (db0\<lparr>genesis_storage :=
               [\<lparr>VtapID = 1, NodeIP = ''10.0.0.9''\<rparr>, \<lparr>VtapID = 2, NodeIP = ''10.0.0.7''\<rparr>,
                \<lparr>VtapID = 99, NodeIP = ''10.0.0.9''\<rparr>]\<rparr>)
   \<and> failing (db0\<lparr>faults := [CreateStorage]\<rparr>) CreateStorage
   \<and> length (channel (fst (Update (5 * Second) data_vms info_vtap7 engine0 world_create_fails))) = 1
   \<and> GetDB (snd (Update (5 * Second) data_vms info_vtap7 engine0 world_create_fails)) 1 =
        Inr (db0\<lparr>faults := [CreateStorage]\<rparr>)
   \<and> logs (snd (Update (5 * Second) data_vms info_vtap7 engine0 world_create_fails)) = []
   \<and> GetDB world0 (orgID info_no_session) = Inl (SessionError 5)
   \<and> logs (snd (Update (5 * Second) data_vms info_no_session engine0 world0)) =
        [Log LError ''get mysql session failed'' (Some 5)]
   \<and> dbs (snd (Update (5 * Second) data_vms info_no_session engine0 world0)) = dbs world0
   \<and> (\<forall>f. data_none f = None)
   \<and> channel (fst (Update (5 * Second) data_none info_vtap7 engine0 world0)) = []
   \<and> snd (Update (5 * Second) data_none info_vtap7 engine0 world0) = world0"
proof -
  let ?U = "Update (5 * Second) data_vms info_vtap7 engine0 world0"
  let ?U2 = "Update (5 * Second) data_vms info_vtap2 engine0 world_other_node"
  let ?UF = "Update (5 * Second) data_vms info_vtap7 engine0 world_create_fails"
  let ?UN = "Update (5 * Second) data_vms info_no_session engine0 world0"
  have present: "\<exists>f. data_vms f \<noteq> None"
    by (rule exI[of _ VMs]) (simp add: data_vms_def)
  have agent: "vtapID info_vtap7 \<noteq> 0" and agent2: "vtapID info_vtap2 \<noteq> 0"
    and agent': "vtapID info_no_session \<noteq> 0"
    by (simp_all add: info_vtap7_def info_vtap2_def info_no_session_def)
  have session: "GetDB world0 (orgID info_vtap7) = Inr db0"
    and session2: "GetDB world_other_node (orgID info_vtap2) = Inr db0"
    and sessionF: "GetDB world_create_fails (orgID info_vtap7) = Inr (db0\<lparr>faults := [CreateStorage]\<rparr>)"
    and no_session: "GetDB world0 (orgID info_no_session) = Inl (SessionError 5)"
    by (simp_all add: GetDB_def world0_def world_other_node_def world_create_fails_def
          info_vtap7_def info_vtap2_def info_no_session_def)
  have succeeds: "\<not> failing db0 CreateStorage"
    and fails: "failing (db0\<lparr>faults := [CreateStorage]\<rparr>) CreateStorage"
    by (simp_all add: failing_def db0_def)
  have none: "\<forall>f. data_none f = None"
    by (simp add: data_none_def)
  have empty: "channel engine0 = []"
    by (simp add: engine0_def)
  have org: "orgID info_vtap7 = 1" "orgID info_vtap2 = 1" "orgID info_no_session = 5"
    by (simp_all add: info_vtap7_def info_vtap2_def info_no_session_def)
  note pushed = Update_push_and_upsert[of data_vms info_vtap7 "5 * Second" engine0 world0,
                  THEN conjunct1, THEN mp, OF conjI[OF present agent]]
  note pushed2 = Update_push_and_upsert[of data_vms info_vtap2 "5 * Second" engine0 world_other_node,
                  THEN conjunct1, THEN mp, OF conjI[OF present agent2]]
  note pushedF = Update_push_and_upsert[of data_vms info_vtap7 "5 * Second" engine0 world_create_fails,
                  THEN conjunct1, THEN mp, OF conjI[OF present agent]]
  note pushedN = Update_push_and_upsert[of data_vms info_no_session "5 * Second" engine0 world0,
                  THEN conjunct1, THEN mp, OF conjI[OF present agent']]
  note quiet = Update_push_and_upsert[of data_none info_vtap7 "5 * Second" engine0 world0,
                  THEN conjunct2, THEN mp, OF disjI1[OF none]]
  note stored = pushed[THEN conjunct2, THEN conjunct2, THEN conjunct1, THEN spec, THEN mp, OF session]
  note stored2 = pushed2[THEN conjunct2, THEN conjunct2, THEN conjunct1, THEN spec, THEN mp, OF session2]
  note storedF = pushedF[THEN conjunct2, THEN conjunct2, THEN conjunct1, THEN spec, THEN mp, OF sessionF]
  note logged = pushedN[THEN conjunct2, THEN conjunct2, THEN conjunct2, THEN spec, THEN mp, OF no_session]
  from pushed have chan: "channel (fst ?U) = [\<lambda>f. op_Fetch (genesisSyncInfo (fst ?U) f)]"
    and slots: "genesisSyncInfo (fst ?U) = updated data_vms (5 * Second) (genesisSyncInfo engine0)"
    by (simp_all add: empty)
  have one: "length (channel (fst ?U)) = 1"
    by (simp add: chan)
  have "last (channel (fst ?U)) VMs = op_Fetch (updated data_vms (5 * Second) (genesisSyncInfo engine0) VMs)"
    by (simp add: chan slots)
  then have vms: "map res_key (last (channel (fst ?U)) VMs) = [''a'', ''b'']"
    by (simp add: data_vms_def engine0_def op_Update_def op_Fetch_def op_empty_def
          res_a_def res_b_def)
  let ?row7 = "\<lparr>VtapID = vtapID info_vtap7, NodeIP = NODE_IP world0\<rparr>"
  let ?tbl7 = "if vtapID info_vtap7 \<in> set (map VtapID (genesis_storage db0))
               then map (\<lambda>r. if VtapID r = vtapID info_vtap7 then r\<lparr>NodeIP := NODE_IP world0\<rparr> else r)
                      (genesis_storage db0)
               else genesis_storage db0 @ [?row7]"
  let ?row2 = "\<lparr>VtapID = vtapID info_vtap2, NodeIP = NODE_IP world_other_node\<rparr>"
  let ?tbl2 = "if vtapID info_vtap2 \<in> set (map VtapID (genesis_storage db0))
               then map (\<lambda>r. if VtapID r = vtapID info_vtap2 then r\<lparr>NodeIP := NODE_IP world_other_node\<rparr> else r)
                      (genesis_storage db0)
               else genesis_storage db0 @ [?row2]"
  have tbl7: "?tbl7 = [\<lparr>VtapID = 1, NodeIP = ''10.0.0.9''\<rparr>, \<lparr>VtapID = 2, NodeIP = ''10.0.0.9''\<rparr>,
                \<lparr>VtapID = 99, NodeIP = ''10.0.0.9''\<rparr>, \<lparr>VtapID = 7, NodeIP = ''10.0.0.9''\<rparr>]"
    by (simp add: db0_def world0_def info_vtap7_def)
  have tbl2: "?tbl2 = [\<lparr>VtapID = 1, NodeIP = ''10.0.0.9''\<rparr>, \<lparr>VtapID = 2, NodeIP = ''10.0.0.7''\<rparr>,
                \<lparr>VtapID = 99, NodeIP = ''10.0.0.9''\<rparr>]"
    by (simp add: db0_def world_other_node_def info_vtap2_def)
  note upsert7 = stored[THEN conjunct2, THEN conjunct2, THEN conjunct2, THEN conjunct2,
                   THEN conjunct1, THEN mp, OF succeeds, unfolded Let_def, THEN conjunct1]
  note upsert2 = stored2[THEN conjunct2, THEN conjunct2, THEN conjunct2, THEN conjunct2,
                   THEN conjunct1, THEN mp, OF succeeds, unfolded Let_def, THEN conjunct1]
  have inserted: "GetDB (snd ?U) 1 =
        Inr (db0\<lparr>genesis_storage :=
               [\<lparr>VtapID = 1, NodeIP = ''10.0.0.9''\<rparr>, \<lparr>VtapID = 2, NodeIP = ''10.0.0.9''\<rparr>,
                \<lparr>VtapID = 99, NodeIP = ''10.0.0.9''\<rparr>, \<lparr>VtapID = 7, NodeIP = ''10.0.0.9''\<rparr>]\<rparr>)"
    using upsert7 unfolding tbl7 org .
  have updated_row: "GetDB (snd ?U2) 1 =
        Inr (db0\<lparr>genesis_storage :=
               [\<lparr>VtapID = 1, NodeIP = ''10.0.0.9''\<rparr>, \<lparr>VtapID = 2, NodeIP = ''10.0.0.7''\<rparr>,
                \<lparr>VtapID = 99, NodeIP = ''10.0.0.9''\<rparr>]\<rparr>)"
    using upsert2 unfolding tbl2 org .
  note silent = stored[THEN conjunct2, THEN conjunct1]
  from pushedF have oneF: "length (channel (fst ?UF)) = 1"
    by (simp add: empty)
  have keptF: "GetDB (snd ?UF) 1 = Inr (db0\<lparr>faults := [CreateStorage]\<rparr>)"
    using storedF[THEN conjunct2, THEN conjunct2, THEN conjunct2, THEN conjunct2,
            THEN conjunct2, THEN mp, OF fails]
    unfolding org .
  note silentF = storedF[THEN conjunct2, THEN conjunct1]
  have err: "logs (snd ?UN) = logs world0 @ [Log LError ''get mysql session failed'' (Some 5)]"
    using logged[THEN conjunct2, THEN conjunct1] unfolding org .
  note unwritten = logged[THEN conjunct2, THEN conjunct2]
  have nologs: "logs world0 = []" "logs world_create_fails = []"
    by (simp_all add: world0_def world_create_fails_def)
  from present agent session one vms inserted silent updated_row fails oneF keptF silentF
       no_session err unwritten none quiet empty nologs
  show ?thesis
    by simp
qed

subsection \<open>The persistence loop\<close>

lemma age_slot_other: "f' \<noteq> f \<Longrightarrow> snd (age_slot f now ttl p) f' = snd p f'"
  by (simp add: age_slot_def)

lemma age_slot_skip: "fst p \<Longrightarrow> age_slot f now ttl p = p"
  by (simp add: age_slot_def)

lemma run_tick_Hosts: "genesisSyncInfo (fst (run_tick now s w)) Hosts = genesisSyncInfo s Hosts"
  by (simp add: run_tick_def Let_def fetch_fields age_slot_other)

lemma run_loop_Hosts: "genesisSyncInfo (fst (run_loop wakes s w)) Hosts = genesisSyncInfo s Hosts"
proof (induction wakes arbitrary: s w)
  case Nil
  show ?case by simp
next
  case (Cons now wakes)
  obtain s' w' where t: "run_tick now s w = (s', w')" by (cases "run_tick now s w")
  have "genesisSyncInfo s' Hosts = genesisSyncInfo s Hosts"
    using run_tick_Hosts[of now s w] by (simp add: t)
  with Cons.IH[of s' w'] show ?case by (simp add: t)
qed

lemma run_tick_channel:
  "channel (fst (run_tick now s w)) = channel s
   \<or> channel (fst (run_tick now s w)) =
       channel s @ [\<lambda>f. op_Fetch (genesisSyncInfo (fst (run_tick now s w)) f)]"
  by (simp add: run_tick_def Let_def fetch_channel fetch_fields)

text \<open>
  C9. A pass of the persistence loop, and so any number of passes, leaves the Hosts
  slot exactly as it was, whatever the age of its records; and the snapshot that
  \<open>fetch\<close> sends (every push goes through \<open>fetch\<close>) carries the records of the Hosts
  slot as they are at that moment, in particular each snapshot a pass pushes.
\<close>

theorem Hosts_not_aged_but_sent:
  "genesisSyncInfo (fst (run_tick now s w)) Hosts = genesisSyncInfo s Hosts
   \<and> genesisSyncInfo (fst (run_loop wakes s w)) Hosts = genesisSyncInfo s Hosts
   \<and> butlast (channel (fetch s)) = channel s
   \<and> last (channel (fetch s)) Hosts = op_Fetch (genesisSyncInfo s Hosts)
   \<and> list_all (\<lambda>snap. snap Hosts = op_Fetch (genesisSyncInfo s Hosts))
        (drop (length (channel s)) (channel (fst (run_tick now s w))))"
proof -
  have sent: "list_all (\<lambda>snap. snap Hosts = op_Fetch (genesisSyncInfo s Hosts))
        (drop (length (channel s)) (channel (fst (run_tick now s w))))"
    using run_tick_channel[of now s w] by (auto simp: run_tick_Hosts)
  show ?thesis
    by (simp add: run_tick_Hosts run_loop_Hosts fetch_channel sent)
qed

text \<open>
  When the first family of the chain reports a change, the pass ages no other family:
  the aggregate after the pass differs from the one before in the VIPs slot only.
\<close>

lemma run_tick_first_change_skips_rest:
  assumes "fst (op_Age now (AgingTime (cfg s) * Second) (genesisSyncInfo s VIPs))"
  shows "genesisSyncInfo (fst (run_tick now s w)) =
           (genesisSyncInfo s)(VIPs := snd (op_Age now (AgingTime (cfg s) * Second) (genesisSyncInfo s VIPs)))"
proof -
  have first: "age_slot VIPs now (AgingTime (cfg s) * Second) (False, genesisSyncInfo s)
               = (True, (genesisSyncInfo s)(VIPs := snd (op_Age now (AgingTime (cfg s) * Second) (genesisSyncInfo s VIPs))))"
    using assms by (simp add: age_slot_def)
  show ?thesis
    by (simp add: run_tick_def Let_def first age_slot_skip fetch_fields)
qed

text \<open>
  C1 fails on the source. The right operand of \<^verbatim>\<open>||\<close> is evaluated only while
  \<open>hasChange\<close> is false: once a family has reported a change, the families after it
  are not aged in that pass. Here the aging time is 60 seconds and the loop wakes at
  second 100; VIPs and VMs each hold a record last seen at second 0. VIPs is aged and
  reports a change, and the stale record of VMs is still there after the pass.
\<close>

theorem run_tick_skips_aging_after_change:
  "op_records (genesisSyncInfo (fst (run_tick (100 * Second) engine_stale world0)) VIPs) = []
   \<and> op_records (genesisSyncInfo (fst (run_tick (100 * Second) engine_stale world0)) VMs) = [(''b'', res_b)]
   \<and> 100 * Second - last_seen res_b > AgingTime (cfg engine_stale) * Second"
proof -
  have aged: "op_Age (100 * Second) (AgingTime (cfg engine_stale) * Second) (genesisSyncInfo engine_stale VIPs)
               = (True, \<lparr>op_orgID = 1, op_records = []\<rparr>)"
    by (simp add: op_Age_def engine_stale_def cfg0_def res_a_def Second_def)
  have info: "genesisSyncInfo (fst (run_tick (100 * Second) engine_stale world0))
               = (genesisSyncInfo engine_stale)(VIPs := \<lparr>op_orgID = 1, op_records = []\<rparr>)"
    using run_tick_first_change_skips_rest[of "100 * Second" engine_stale world0]
    by (simp add: aged)
  have stale: "100 * Second - last_seen res_b > AgingTime (cfg engine_stale) * Second"
    by (simp add: engine_stale_def cfg0_def res_b_def Second_def)
  show ?thesis
    by (simp add: info stale) (simp add: engine_stale_def)
qed

subsection \<open>Stop and the background loops\<close>

lemma Stop_fields:
  "genesisSyncInfo (Stop s) = genesisSyncInfo s" "cfg (Stop s) = cfg s"
  "dirty (Stop s) = dirty s" "channel (Stop s) = channel s" "vCtx_cancelled (Stop s)"
  by (simp_all add: Stop_def)

lemma storeToDatabase_slots:
  "genesisSyncInfo s = genesisSyncInfo s' \<Longrightarrow> storeToDatabase s w = storeToDatabase s' w"
  by (simp add: storeToDatabase_def)

lemma Stop_fetch: "fetch (Stop s) = Stop (fetch s)"
  by (simp add: fetch_def Stop_def)

lemma Stop_run_tick:
  "run_tick now (Stop s) w = (Stop (fst (run_tick now s w)), snd (run_tick now s w))"
proof -
  define p where "p =
    age_slot Vinterfaces now (VinterfaceAgingTime (cfg s) * Second)
     (age_slot Processes now (AgingTime (cfg s) * Second)
       (age_slot IPlastseens now (AgingTime (cfg s) * Second)
         (age_slot Networks now (AgingTime (cfg s) * Second)
           (age_slot Ports now (AgingTime (cfg s) * Second)
             (age_slot Lldps now (AgingTime (cfg s) * Second)
               (age_slot VPCs now (AgingTime (cfg s) * Second)
                 (age_slot VMs now (AgingTime (cfg s) * Second)
                   (age_slot VIPs now (AgingTime (cfg s) * Second) (False, genesisSyncInfo s)))))))))"
  define s1 where "s1 = s\<lparr>genesisSyncInfo := snd p, dirty := False\<rparr>"
  have plain: "run_tick now s w = (if fst p \<or> dirty s then (fetch s1, storeToDatabase s1 w) else (s1, w))"
    unfolding run_tick_def Let_def p_def s1_def by (rule refl)
  have s1': "(Stop s)\<lparr>genesisSyncInfo := snd p, dirty := False\<rparr> = Stop s1"
    by (simp add: s1_def Stop_def)
  have stopped: "run_tick now (Stop s) w =
      (if fst p \<or> dirty s then (fetch (Stop s1), storeToDatabase (Stop s1) w) else (Stop s1, w))"
    unfolding run_tick_def Let_def Stop_fields p_def[symmetric] s1' by (rule refl)
  have store: "storeToDatabase (Stop s1) w = storeToDatabase s1 w"
    by (rule storeToDatabase_slots) (simp add: Stop_fields)
  show ?thesis
    by (simp add: plain stopped store Stop_fetch)
qed

lemma Stop_run_loop:
  "run_loop wakes (Stop s) w = (Stop (fst (run_loop wakes s w)), snd (run_loop wakes s w))"
proof (induction wakes arbitrary: s w)
  case Nil
  show ?case by simp
next
  case (Cons now wakes)
  obtain s' w' where t: "run_tick now s w = (s', w')" by (cases "run_tick now s w")
  have "run_tick now (Stop s) w = (Stop s', w')"
    by (simp add: Stop_run_tick t)
  with Cons.IH[of s' w'] show ?case by (simp add: t)
qed

lemma run_loop_single: "run_loop [now] s w = run_tick now s w"
  by (cases "run_tick now s w") simp

lemma Stop_refreshDatabase_tick:
  "refreshDatabase_tick orgs (Stop s) w =
     (case refreshDatabase_tick orgs s w of (st, s', w') \<Rightarrow> (st, Stop s', w'))"
  by (cases orgs) (simp_all add: refreshDatabase_tick_def Stop_def)

lemma Stop_refreshDatabase:
  "refreshDatabase ticks (Stop s) w =
     (case refreshDatabase ticks s w of (st, s', w') \<Rightarrow> (st, Stop s', w'))"
proof (induction ticks arbitrary: s w)
  case Nil
  show ?case by simp
next
  case (Cons orgs ticks)
  obtain st s' w' where t: "refreshDatabase_tick orgs s w = (st, s', w')"
    by (cases "refreshDatabase_tick orgs s w")
  have t': "refreshDatabase_tick orgs (Stop s) w = (st, Stop s', w')"
    by (simp add: Stop_refreshDatabase_tick t)
  show ?case
    using Cons.IH[of s' w'] by (cases st) (simp_all add: t t')
qed

lemma kStop_krun_tick: "krun_tick now (kStop k) = kStop (krun_tick now k)"
  by (simp add: krun_tick_def kStop_def kfetch_def)

lemma kStop_krun: "krun wakes (kStop k) = kStop (krun wakes k)"
  by (induction wakes arbitrary: k) (simp_all add: kStop_krun_tick)

text \<open>
  The claim C4 says that after \<open>Stop\<close> no loop executes a further pass. No loop of
  the source reads the cancellation scope. After \<open>Stop\<close>: the persistence loop, woken
  at second 100, ages and pushes a snapshot; the aging loop of KubernetesStorage, woken
  at second 30, sends the store; the reconciler, at its next tick, deletes the
  ownership row of the unknown agent 99, marks the engine dirty and goes on looping.
\<close>

theorem loops_run_after_Stop_counterexample:
  "vCtx_cancelled (Stop engine_stale)
   \<and> length (channel (fst (run_loop [100 * Second] (Stop engine_stale) world0)))
       = Suc (length (channel (Stop engine_stale)))
   \<and> kCtx_cancelled (kStop kstore0)
   \<and> kchannel (kStop kstore0) = []
   \<and> kchannel (krun [30 * Second] (kStop kstore0)) = [info_v5]
   \<and> fst (refreshDatabase [Inr [1]] (Stop engine0) world0) = Looping
   \<and> dirty (fst (snd (refreshDatabase [Inr [1]] (Stop engine0) world0)))
   \<and> map (\<lambda>(org, d). (org, map VtapID (genesis_storage d)))
        (dbs (snd (snd (refreshDatabase [Inr [1]] (Stop engine0) world0)))) = [(1, [1, 2])]
   \<and> map (\<lambda>(org, d). (org, map VtapID (genesis_storage d))) (dbs world0) = [(1, [1, 2, 99])]"
proof -
  have first: "age_slot VIPs (100 * Second) (AgingTime (cfg engine_stale) * Second)
                 (False, genesisSyncInfo engine_stale)
               = (True, (genesisSyncInfo engine_stale)(VIPs := \<lparr>op_orgID = 1, op_records = []\<rparr>))"
    by (simp add: age_slot_def op_Age_def engine_stale_def cfg0_def res_a_def Second_def)
  have "channel (fst (run_tick (100 * Second) (Stop engine_stale) world0))
          = channel (Stop engine_stale) @
              [\<lambda>f. op_Fetch (((genesisSyncInfo engine_stale)(VIPs := \<lparr>op_orgID = 1, op_records = []\<rparr>)) f)]"
    by (simp add: run_tick_def Let_def Stop_fields first age_slot_skip fetch_channel)
  then have sync: "length (channel (fst (run_loop [100 * Second] (Stop engine_stale) world0)))
       = Suc (length (channel (Stop engine_stale)))"
    unfolding run_loop_single by simp
  have k8s: "kchannel (krun [30 * Second] (kStop kstore0)) = [info_v5]" "kchannel (kStop kstore0) = []"
    "kCtx_cancelled (kStop kstore0)"
    by (simp_all add: krun_tick_def kfetch_def kStop_def kstore0_def cfg0_def info_v5_def Second_def)
  have org: "refresh_org (NODE_IP world0) 1 world0 =
       log_msg LInfo ''node (%s) clean genesis storage invalid data success'' (Some 1)
         (PutDB 1 (db0\<lparr>genesis_storage := [\<lparr>VtapID = 1, NodeIP = ''10.0.0.9''\<rparr>, \<lparr>VtapID = 2, NodeIP = ''10.0.0.9''\<rparr>]\<rparr>) world0)"
    by (simp add: refresh_org_def GetDB_def Find_def failing_def Let_def world0_def db0_def)
  have tick: "refreshDatabase [Inr [1]] (Stop engine0) world0 =
       (Looping, (Stop engine0)\<lparr>dirty := True\<rparr>, refresh_org (NODE_IP world0) 1 world0)"
    by (simp add: refreshDatabase_tick_def)
  have rec: "fst (refreshDatabase [Inr [1]] (Stop engine0) world0) = Looping"
    "dirty (fst (snd (refreshDatabase [Inr [1]] (Stop engine0) world0)))"
    "map (\<lambda>(org, d). (org, map VtapID (genesis_storage d)))
        (dbs (snd (snd (refreshDatabase [Inr [1]] (Stop engine0) world0)))) = [(1, [1, 2])]"
    unfolding tick org by (simp_all add: log_msg_def PutDB_def world0_def)
  have before: "map (\<lambda>(org, d). (org, map VtapID (genesis_storage d))) (dbs world0) = [(1, [1, 2, 99])]"
    by (simp add: world0_def db0_def)
  from sync k8s rec before show ?thesis
    by (simp add: Stop_fields)
qed

text \<open>
  C4, amended. \<open>Stop\<close> only cancels the engine's scope, and no background loop
  reads it: after \<open>Stop\<close> the persistence loop, the ownership reconciler and the aging
  loop of KubernetesStorage execute, at every wake-up or tick, exactly the pass they
  would have executed had \<open>Stop\<close> not been called.
\<close>

theorem Stop_does_not_reach_the_loops:
  "run_loop wakes (Stop s) w = (Stop (fst (run_loop wakes s w)), snd (run_loop wakes s w))
   \<and> refreshDatabase ticks (Stop s) w =
       (case refreshDatabase ticks s w of (st, s', w') \<Rightarrow> (st, Stop s', w'))
   \<and> krun wakes' (kStop k) = kStop (krun wakes' k)"
  by (simp only: Stop_run_loop Stop_refreshDatabase kStop_krun simp_thms)

subsection \<open>The reconciler and a failing enumeration of the organizations\<close>

text \<open>
  C5 fails on the source. When \<^verbatim>\<open>mysql.GetORGIDs()\<close> fails, the loop body logs
  the error and executes \<^verbatim>\<open>return\<close>, which leaves \<^verbatim>\<open>refreshDatabase\<close>
  (a failing \<^verbatim>\<open>mysql.GetDB\<close> a few lines below executes \<^verbatim>\<open>continue\<close>). Here
  the enumeration fails at the first tick and would succeed at the second: the
  reconciler has returned after the first, the row of the unknown agent 99 is never
  deleted and the engine is never marked dirty; had the first tick not failed, the second
  alone would have done both.
\<close>

theorem refreshDatabase_returns_on_failed_enumeration:
  "refreshDatabase [Inl StatementError, Inr [1]] engine0 world0
     = (Returned, engine0, log_msg LError ''get org ids failed'' None world0)
   \<and> \<not> dirty engine0
   \<and> map (\<lambda>(org, d). (org, map VtapID (genesis_storage d)))
        (dbs (log_msg LError ''get org ids failed'' None world0)) = [(1, [1, 2, 99])]
   \<and> fst (refreshDatabase [Inr [1]] engine0 world0) = Looping
   \<and> dirty (fst (snd (refreshDatabase [Inr [1]] engine0 world0)))
   \<and> map (\<lambda>(org, d). (org, map VtapID (genesis_storage d)))
        (dbs (snd (snd (refreshDatabase [Inr [1]] engine0 world0)))) = [(1, [1, 2])]"
proof -
  have org: "refresh_org (NODE_IP world0) 1 world0 =
       log_msg LInfo ''node (%s) clean genesis storage invalid data success'' (Some 1)
         (PutDB 1 (db0\<lparr>genesis_storage := [\<lparr>VtapID = 1, NodeIP = ''10.0.0.9''\<rparr>, \<lparr>VtapID = 2, NodeIP = ''10.0.0.9''\<rparr>]\<rparr>) world0)"
    by (simp add: refresh_org_def GetDB_def Find_def failing_def Let_def world0_def db0_def)
  have tick: "refreshDatabase [Inr [1]] engine0 world0 =
       (Looping, engine0\<lparr>dirty := True\<rparr>, refresh_org (NODE_IP world0) 1 world0)"
    by (simp add: refreshDatabase_tick_def)
  have ok: "fst (refreshDatabase [Inr [1]] engine0 world0) = Looping"
    "dirty (fst (snd (refreshDatabase [Inr [1]] engine0 world0)))"
    "map (\<lambda>(org, d). (org, map VtapID (genesis_storage d)))
        (dbs (snd (snd (refreshDatabase [Inr [1]] engine0 world0)))) = [(1, [1, 2])]"
    unfolding tick org by (simp_all add: log_msg_def PutDB_def world0_def)
  have failed: "refreshDatabase [Inl StatementError, Inr [1]] engine0 world0
     = (Returned, engine0, log_msg LError ''get org ids failed'' None world0)"
    by (simp add: refreshDatabase_tick_def)
  have kept: "\<not> dirty engine0"
    "map (\<lambda>(org, d). (org, map VtapID (genesis_storage d)))
        (dbs (log_msg LError ''get org ids failed'' None world0)) = [(1, [1, 2, 99])]"
    by (simp_all add: engine0_def log_msg_def world0_def db0_def)
  from failed kept ok show ?thesis by simp
qed

end
